theory Spec2Isabelle
  imports Main "HOL-Library.Sublist"
begin

section \<open>Accounts\<close>

text \<open>
  A \<^verbatim>\<open>Hash\<close> is a byte slice; a nil slice and an empty one are the same list here,
  as they are for \<^verbatim>\<open>len\<close> and \<^verbatim>\<open>bytes.Equal\<close>. Timestamps are instants on the
  integer line, the zero time being 0. A Go pointer that may be nil is an option.
\<close>

type_synonym Hash = string
type_synonym Time = int

record SSHKey =
  key_ID :: string
  key_Private :: string
  key_Public :: "string option"

record AccountMetadata =
  am_ID :: string
  am_Key :: "SSHKey option"
  am_FollowersIRI :: string

datatype Account = Account
  (acc_Hash: Hash)
  (acc_Handle: string)
  (acc_Metadata: "AccountMetadata option")
  (acc_Logged: bool)
  (acc_Followers: "Account list")

text \<open>
  Modelled from the spec: \<^verbatim>\<open>Account.IsValid\<close>, whose body is not among the sources.
  The spec: an account is valid when it "has a non-empty hash or is one of two well-known
  sentinel accounts: anonymous, system". The sentinels are recognised by their handles.
\<close>

definition Anonymous :: string where
  "Anonymous = ''anonymous''"

definition System :: string where
  "System = ''system''"

definition IsValid :: "Account \<Rightarrow> bool" where
  "IsValid a = (acc_Hash a \<noteq> [] \<or> acc_Handle a = Anonymous \<or> acc_Handle a = System)"

text \<open>
  Modelled from the spec: \<^verbatim>\<open>Account.IsLogged\<close>, whose body is not among the sources.
  The spec speaks of logged-in and logged-out accounts without saying how the state is
  derived, so it is an attribute of the account.
\<close>

definition IsLogged :: "Account \<Rightarrow> bool" where
  "IsLogged a = acc_Logged a"


text \<open>
  Modelled from the spec: \<^verbatim>\<open>HashesEqual\<close>, whose body is not among the sources.
  The spec: "two entities are equal iff hashes are equal".
\<close>

definition HashesEqual :: "Hash \<Rightarrow> Hash \<Rightarrow> bool" where
  "HashesEqual h1 h2 = (h1 = h2)"

text \<open>\<^verbatim>\<open>accountsEqual\<close> (repository.go): hash equality, or equal handles not both empty.\<close>

definition accountsEqual :: "Account \<Rightarrow> Account \<Rightarrow> bool" where
  "accountsEqual a1 a2 =
     (acc_Hash a1 = acc_Hash a2 \<or>
      (length (acc_Handle a1) + length (acc_Handle a2) > 0 \<and> acc_Handle a1 = acc_Handle a2))"

text \<open>\<^verbatim>\<open>accountInCollection\<close>: the loop returns at the first follower with an equal hash.\<close>

fun accountInCollection :: "Account \<Rightarrow> Account list \<Rightarrow> bool" where
  "accountInCollection ac [] = False"
| "accountInCollection ac (fol # col) =
     (if HashesEqual (acc_Hash fol) (acc_Hash ac) then True else accountInCollection ac col)"

section \<open>Outcomes and errors\<close>

text \<open>
  An operation either panics (a nil dereference, a method call on a nil interface) or
  returns. Errors are values; the constructors follow the constructors of the errors
  package that the code calls.
\<close>

datatype 'a outcome = Panic | Ret 'a

datatype error =
    Newf string
  | Errorf string
  | Unauthorizedf string
  | NotFoundf string
  | Remote string

section \<open>Request signing\<close>

datatype PrivateKey = PrivateKey string

record Signer =
  sig_KeyID :: string
  sig_Key :: "PrivateKey option"

definition getSigner :: "string \<Rightarrow> PrivateKey option \<Rightarrow> Signer" where
  "getSigner pubKeyID key = \<lparr>sig_KeyID = pubKeyID, sig_Key = key\<rparr>"

text \<open>
  \<^verbatim>\<open>withAccountS2S\<close>. The function has no error result: it returns the signing function
  or nil, and reports through the error logger, whose lines are the second component.
  \<^verbatim>\<open>parse\<close> stands for \<^verbatim>\<open>x509.ParsePKCS8PrivateKey\<close> and \<^verbatim>\<open>keyIdOf\<close> for the
  public key identifier of \<^verbatim>\<open>loadAPPerson(*a)\<close>. Reading \<^verbatim>\<open>a.Metadata.Key\<close> of an
  account without metadata is a nil dereference.
\<close>

definition withAccountS2S ::
  "(string \<Rightarrow> string + PrivateKey) \<Rightarrow> (Account \<Rightarrow> string) \<Rightarrow> Account
     \<Rightarrow> (Signer option \<times> string list) outcome" where
  "withAccountS2S parse keyIdOf a =
     (if \<not> IsValid a \<or> \<not> IsLogged a then Ret (None, [])
      else case acc_Metadata a of
        None \<Rightarrow> Panic
      | Some m \<Rightarrow>
         (case am_Key m of
            None \<Rightarrow> Ret (None, [])
          | Some k \<Rightarrow>
             (case (if key_ID k = ''id-rsa''
                    then (case parse (key_Private k) of
                            Inl e \<Rightarrow> (None, Some e)
                          | Inr prv \<Rightarrow> (Some prv, None))
                    else (None, None)) of
                (prv, Some e) \<Rightarrow> Ret (None, [e])
              | (prv, None) \<Rightarrow>
                  if key_ID k = ''id-ecdsa''
                  then Ret (None, [''unsupported private key type '' @ key_ID k])
                  else Ret (Some (getSigner (keyIdOf a) prv), []))))"

section \<open>Wire objects\<close>

text \<open>
  The wire types are those of the ActivityPub vocabulary package. A natural language
  value is a list of (language, text) pairs; \<^verbatim>\<open>First().Value\<close> is the text of the
  first pair, empty when there is none.
\<close>

datatype ActivityVocabularyType =
    NoType | ObjectType | LinkType | MentionType
  | ArticleType | NoteType | PageType | DocumentType
  | ImageType | VideoType | AudioType | TombstoneType
  | PersonType | ServiceType | GroupType | ApplicationType | OrganizationType
  | ActivityType | CreateType | UpdateType | DeleteType
  | LikeType | DislikeType | UndoType
  | FollowType | AcceptType | RejectType | BlockType | FlagType | IgnoreType

type_synonym NaturalLanguageValues = "(string \<times> string) list"

definition First_Value :: "NaturalLanguageValues \<Rightarrow> string" where
  "First_Value n = (case n of [] \<Rightarrow> [] | (_, v) # _ \<Rightarrow> v)"

fun nlv_Set :: "string \<Rightarrow> string \<Rightarrow> NaturalLanguageValues \<Rightarrow> NaturalLanguageValues" where
  "nlv_Set l v [] = [(l, v)]"
| "nlv_Set l v ((l', v') # n) = (if l' = l then (l, v) # n else (l', v') # nlv_Set l v n)"

record ObjectData =
  o_ID :: string
  o_Type :: ActivityVocabularyType
  o_Name :: NaturalLanguageValues
  o_Content :: NaturalLanguageValues
  o_Summary :: NaturalLanguageValues
  o_MediaType :: string
  o_SourceContent :: NaturalLanguageValues
  o_SourceMediaType :: string
  o_Published :: Time
  o_Updated :: Time
  o_Deleted :: Time

text \<open>
  A wire item is nil, an IRI, a collection of items, or an object. Activities carry the
  fields of objects and an actor and an object of their own (nil on plain objects); which
  of the two a value is follows from its type tag, as it does when the value is
  unmarshalled. Icons and tags are left out of the wire model.
\<close>

datatype Wire =
    WNil
  | WIRI string
  | WColl "Wire list"
  | WObj ObjectData
      (w_URL: Wire) (w_AttributedTo: Wire) (w_Context: Wire) (w_InReplyTo: Wire)
      (w_To: "Wire list") (w_CC: "Wire list") (w_BCC: "Wire list")
      (w_Actor: Wire) (w_Object: Wire)

definition PublicNS :: string where
  "PublicNS = ''https://www.w3.org/ns/activitystreams#Public''"

definition LinkTypes :: "ActivityVocabularyType list" where
  "LinkTypes = [LinkType, MentionType]"

fun IsLink :: "Wire \<Rightarrow> bool" where
  "IsLink (WIRI _) = True"
| "IsLink (WObj od _ _ _ _ _ _ _ _ _) = (o_Type od \<in> set LinkTypes)"
| "IsLink _ = False"

text \<open>\<^verbatim>\<open>GetLink\<close> on a nil interface is a panic; callers test for nil first or panic.\<close>

fun GetLink :: "Wire \<Rightarrow> string" where
  "GetLink (WIRI s) = s"
| "GetLink (WObj od _ _ _ _ _ _ _ _ _) = o_ID od"
| "GetLink _ = []"

fun GetType :: "Wire \<Rightarrow> ActivityVocabularyType" where
  "GetType (WObj od _ _ _ _ _ _ _ _ _) = o_Type od"
| "GetType _ = NoType"

fun coll_First :: "Wire list \<Rightarrow> Wire" where
  "coll_First [] = WNil"
| "coll_First (x # _) = x"

section \<open>Items and votes\<close>

text \<open>
  The metadata of an item, with its listed recipients and the names it mentions; its
  icon and its tags are left out.
\<close>

record ItemMetadata =
  im_ID :: string
  im_URL :: string
  im_AuthorURI :: string
  im_To :: "Account list"
  im_CC :: "Account list"
  im_Mentions :: "string list"

text \<open>
  An item points to its parent and to its origin (\<^verbatim>\<open>OP\<close>). The two flag bits the code
  reads through \<^verbatim>\<open>Deleted()\<close> and \<^verbatim>\<open>Private()\<close> are two booleans.
\<close>

datatype Item = Item
  (it_Hash: Hash)
  (it_Title: string)
  (it_MimeType: string)
  (it_Data: string)
  (it_SubmittedBy: "Account option")
  (it_Parent: "Item option")
  (it_OP: "Item option")
  (it_Metadata: "ItemMetadata option")
  (it_Deleted: bool)
  (it_Private: bool)
  (it_SubmittedAt: Time)
  (it_UpdatedAt: Time)
  (it_pub: Wire)

definition emptyItem :: Item where
  "emptyItem = Item [] [] [] [] None None None None False False 0 0 WNil"

definition emptyItemMetadata :: ItemMetadata where
  "emptyItemMetadata = \<lparr>im_ID = [], im_URL = [], im_AuthorURI = [], im_To = [], im_CC = [],
                         im_Mentions = []\<rparr>"

definition emptyAccountMetadata :: AccountMetadata where
  "emptyAccountMetadata = \<lparr>am_ID = [], am_Key = None, am_FollowersIRI = []\<rparr>"

definition MimeTypeURL :: string where "MimeTypeURL = ''application/url''"
definition MimeTypeHTML :: string where "MimeTypeHTML = ''text/html''"
definition MimeTypeMarkdown :: string where "MimeTypeMarkdown = ''text/markdown''"
definition MimeTypeText :: string where "MimeTypeText = ''text/plain''"

text \<open>Field updates of an item, one per assignment the decoder makes.\<close>

fun set_Hash :: "Hash \<Rightarrow> Item \<Rightarrow> Item" where
  "set_Hash v (Item h t m d sb p op md del prv sa ua pb) = Item v t m d sb p op md del prv sa ua pb"
fun set_Title :: "string \<Rightarrow> Item \<Rightarrow> Item" where
  "set_Title v (Item h t m d sb p op md del prv sa ua pb) = Item h v m d sb p op md del prv sa ua pb"
fun set_MimeType :: "string \<Rightarrow> Item \<Rightarrow> Item" where
  "set_MimeType v (Item h t m d sb p op md del prv sa ua pb) = Item h t v d sb p op md del prv sa ua pb"
fun set_Data :: "string \<Rightarrow> Item \<Rightarrow> Item" where
  "set_Data v (Item h t m d sb p op md del prv sa ua pb) = Item h t m v sb p op md del prv sa ua pb"
fun set_SubmittedBy :: "Account option \<Rightarrow> Item \<Rightarrow> Item" where
  "set_SubmittedBy v (Item h t m d sb p op md del prv sa ua pb) = Item h t m d v p op md del prv sa ua pb"
fun set_Parent :: "Item option \<Rightarrow> Item \<Rightarrow> Item" where
  "set_Parent v (Item h t m d sb p op md del prv sa ua pb) = Item h t m d sb v op md del prv sa ua pb"
fun set_OP :: "Item option \<Rightarrow> Item \<Rightarrow> Item" where
  "set_OP v (Item h t m d sb p op md del prv sa ua pb) = Item h t m d sb p v md del prv sa ua pb"
fun set_Metadata :: "ItemMetadata option \<Rightarrow> Item \<Rightarrow> Item" where
  "set_Metadata v (Item h t m d sb p op md del prv sa ua pb) = Item h t m d sb p op v del prv sa ua pb"
fun set_Deleted :: "bool \<Rightarrow> Item \<Rightarrow> Item" where
  "set_Deleted v (Item h t m d sb p op md del prv sa ua pb) = Item h t m d sb p op md v prv sa ua pb"
fun set_Private :: "bool \<Rightarrow> Item \<Rightarrow> Item" where
  "set_Private v (Item h t m d sb p op md del prv sa ua pb) = Item h t m d sb p op md del v sa ua pb"
fun set_SubmittedAt :: "Time \<Rightarrow> Item \<Rightarrow> Item" where
  "set_SubmittedAt v (Item h t m d sb p op md del prv sa ua pb) = Item h t m d sb p op md del prv v ua pb"
fun set_UpdatedAt :: "Time \<Rightarrow> Item \<Rightarrow> Item" where
  "set_UpdatedAt v (Item h t m d sb p op md del prv sa ua pb) = Item h t m d sb p op md del prv sa v pb"
fun set_pub :: "Wire \<Rightarrow> Item \<Rightarrow> Item" where
  "set_pub v (Item h t m d sb p op md del prv sa ua pb) = Item h t m d sb p op md del prv sa ua v"

text \<open>The metadata of an item, allocated when it is nil, then updated.\<close>

definition upd_Metadata :: "(ItemMetadata \<Rightarrow> ItemMetadata) \<Rightarrow> Item \<Rightarrow> Item" where
  "upd_Metadata f i =
     set_Metadata (Some (f (case it_Metadata i of None \<Rightarrow> emptyItemMetadata | Some m \<Rightarrow> m))) i"

text \<open>
  What the decoder takes from outside the sources, as parameters: the hash of an
  identifier (\<^verbatim>\<open>HashFromItem\<close>), the hash and the account of the anonymous sentinel, the
  two HTML sanitizers, and the collection name that \<^verbatim>\<open>handlers.Split\<close> finds at the end
  of an IRI when \<^verbatim>\<open>handlers.ValidCollection\<close> accepts it. The account decoder
  \<^verbatim>\<open>Account.FromActivityPub\<close> is a parameter too: it reads the configuration of the
  instance and helpers that are outside the sources, it has no panic of its own, and
  every caller here drops its error and keeps the receiver.
\<close>

record deps =
  HashFromItem :: "string \<Rightarrow> Hash"
  AnonymousHash :: Hash
  AnonymousAccount :: Account
  accountFrom :: "Account \<Rightarrow> Wire \<Rightarrow> Account"
  sanitizeStrict :: "string \<Rightarrow> string"
  sanitizeUGC :: "string \<Rightarrow> string"
  validCollection :: "string \<Rightarrow> string option"

text \<open>\<^verbatim>\<open>Hash.FromActivityPub\<close> on a non-nil item.\<close>

definition hashFrom :: "deps \<Rightarrow> Wire \<Rightarrow> Hash" where
  "hashFrom d it = (if GetLink it = PublicNS then AnonymousHash d else HashFromItem d (GetLink it))"

text \<open>
  \<^verbatim>\<open>loadRecipientsFrom\<close>: the public address sets the flag, the others become accounts.
  \<^verbatim>\<open>rec.GetLink()\<close> on a nil recipient is a panic.
\<close>

fun loadRecipientsFrom :: "deps \<Rightarrow> Wire list \<Rightarrow> (Account list \<times> bool) outcome" where
  "loadRecipientsFrom d [] = Ret ([], False)"
| "loadRecipientsFrom d (rec # recipients) =
     (if rec = WIRI PublicNS then
        (case loadRecipientsFrom d recipients of
           Panic \<Rightarrow> Panic
         | Ret (result, isPublic) \<Rightarrow> Ret (result, True))
      else if rec = WNil then Panic
      else
        (case loadRecipientsFrom d recipients of
           Panic \<Rightarrow> Panic
         | Ret (result, isPublic) \<Rightarrow>
            (case validCollection d (GetLink rec) of
               Some col \<Rightarrow>
                 if col \<noteq> ''followers'' \<and> col \<noteq> ''following'' then Ret (result, isPublic)
                 else Ret (Account [] [] (Some (emptyAccountMetadata\<lparr>am_ID := GetLink rec\<rparr>)) False []
                             # result, isPublic)
             | None \<Rightarrow>
                 (let acc = accountFrom d (Account [] [] None False []) rec in
                  if IsValid acc then Ret (acc # result, isPublic) else Ret (result, isPublic)))))"

text \<open>\<^verbatim>\<open>loadRecipients\<close>: private, unless one of the two recipient lists is public.\<close>

definition loadRecipients :: "deps \<Rightarrow> Wire list \<Rightarrow> Wire list \<Rightarrow> Item \<Rightarrow> Item outcome" where
  "loadRecipients d to cc i =
     (case loadRecipientsFrom d to of
        Panic \<Rightarrow> Panic
      | Ret (tos, pub1) \<Rightarrow>
         (case loadRecipientsFrom d cc of
            Panic \<Rightarrow> Panic
          | Ret (ccs, pub2) \<Rightarrow>
              Ret (set_Private (\<not> (pub1 \<or> pub2))
                     (upd_Metadata (\<lambda>m. m\<lparr>im_To := tos, im_CC := ccs\<rparr>) i))))"

text \<open>Attaching a decoded parent: the origin defaults to it when none is set.\<close>

definition attachParent :: "Item \<Rightarrow> Item \<Rightarrow> Item" where
  "attachParent par i =
     (let i' = set_Parent (Some par) i in
      if it_OP i' = None then set_OP (Some par) i' else i')"

text \<open>
  What \<^verbatim>\<open>InReplyTo\<close> names as the parent: the first element when it is a collection
  (nil when the collection is empty), the value itself otherwise.
\<close>

definition replyTarget :: "Wire \<Rightarrow> Wire" where
  "replyTarget irt = (case irt of WColl repl \<Rightarrow> coll_First repl | _ \<Rightarrow> irt)"

text \<open>\<^verbatim>\<open>FromArticle\<close>, from its first line to the metadata identifiers.\<close>

fun articleHead :: "deps \<Rightarrow> Item \<Rightarrow> Wire \<Rightarrow> Item" where
  "articleHead d i (WObj od url att ctx irt to cc bcc actor obj) =
     (let a = WObj od url att ctx irt to cc bcc actor obj;
          title = First_Value (o_Name od);
          i1 = set_Hash (hashFrom d a) i;
          i2 = (if length title > 0 then set_Title title i1 else i1);
          i3 = (if length (o_Content od) = 0 \<and> url \<noteq> WNil \<and> length (GetLink url) > 0
                then set_MimeType MimeTypeURL (set_Data (GetLink url) i2)
                else set_Data (First_Value (o_Content od))
                       (set_MimeType (if length (o_MediaType od) > 0 then o_MediaType od
                                      else MimeTypeHTML) i2));
          i4 = upd_Metadata (\<lambda>m. m) (set_UpdatedAt (o_Updated od) (set_SubmittedAt (o_Published od) i3));
          i5 = (if att \<noteq> WNil
                then upd_Metadata (\<lambda>m. m\<lparr>im_AuthorURI := GetLink att\<rparr>)
                       (set_SubmittedBy
                          (Some (accountFrom d (Account [] [] (Some emptyAccountMetadata) False []) att)) i4)
                else i4)
      in if length (o_ID od) > 0
         then upd_Metadata (\<lambda>m. m\<lparr>im_ID := o_ID od,
                                  im_URL := (if url \<noteq> WNil then GetLink url else im_URL m)\<rparr>) i5
         else i5)"
| "articleHead d i w = i"

text \<open>\<^verbatim>\<open>FromArticle\<close>, from the summary title to the recipients.\<close>

fun articleTail :: "deps \<Rightarrow> Wire \<Rightarrow> Item \<Rightarrow> Item outcome" where
  "articleTail d (WObj od url att ctx irt to cc bcc actor obj) i8 =
     (let i9 = (if length (it_Title i8) = 0 \<and> irt = WNil \<and> length (o_Summary od) > 0
                then set_Title (sanitizeStrict d (First_Value (o_Summary od))) i8
                else i8);
          i10 = (if length (o_SourceContent od) > 0 \<and> length (o_SourceMediaType od) > 0
                 then set_MimeType (o_SourceMediaType od)
                        (set_Data (sanitizeUGC d (First_Value (o_SourceContent od))) i9)
                 else i9)
      in loadRecipients d to cc i10)"
| "articleTail d w i = Ret i"

text \<open>The tombstone branch of \<^verbatim>\<open>Item.FromActivityPub\<close>, before and after the nested decodes.\<close>

definition tombstoneHead :: "deps \<Rightarrow> ObjectData \<Rightarrow> Item \<Rightarrow> Item" where
  "tombstoneHead d od i0 =
     upd_Metadata (\<lambda>m. if length (o_ID od) > 0 then m\<lparr>im_ID := o_ID od\<rparr> else m)
       (set_Hash (hashFrom d (WIRI (o_ID od))) i0)"

definition tombstoneTail :: "deps \<Rightarrow> ObjectData \<Rightarrow> Item \<Rightarrow> Item" where
  "tombstoneTail d od i4 =
     set_SubmittedBy (Some (AnonymousAccount d))
       (set_Deleted True
         (set_UpdatedAt (o_Deleted od)
           (set_UpdatedAt (o_Updated od)
             (set_SubmittedAt (o_Published od) i4))))"

text \<open>
  The create and update branch after the object is decoded: the actor is decoded into
  the author when there is one, then \<^verbatim>\<open>act.Actor.GetLink()\<close> panics on a nil actor.
\<close>

definition activityTail ::
  "deps \<Rightarrow> Wire \<Rightarrow> Wire list \<Rightarrow> Wire list \<Rightarrow> Item \<Rightarrow> (error option \<times> Item) outcome" where
  "activityTail d actor to cc i1 =
     (let i2 = (case it_SubmittedBy i1 of
                  None \<Rightarrow> i1
                | Some a \<Rightarrow> set_SubmittedBy (Some (accountFrom d a actor)) i1)
      in if actor = WNil then Panic
         else case loadRecipients d to cc
                     (upd_Metadata (\<lambda>m. m\<lparr>im_AuthorURI := GetLink actor\<rparr>) i2) of
                Panic \<Rightarrow> Panic
              | Ret i3 \<Rightarrow> Ret (None, i3))"

text \<open>
  \<^verbatim>\<open>Item.FromActivityPub\<close> and \<^verbatim>\<open>FromArticle\<close>. The receiver is passed in and returned
  with the error. A panic in a nested decode or in the recipients unwinds the whole call. In
  \<^verbatim>\<open>FromArticle\<close> the errors of the nested decodes of the context and of the parent are
  dropped and the decoded value is attached all the same; on the tombstone path it is
  attached only when the nested decode returned no error.
\<close>

function ItemFrom :: "deps \<Rightarrow> Item \<Rightarrow> Wire \<Rightarrow> (error option \<times> Item) outcome"
  and FromArticle :: "deps \<Rightarrow> Item \<Rightarrow> Wire \<Rightarrow> (error option \<times> Item) outcome"
where
  "ItemFrom d i WNil = Ret (Some (Newf ''nil item received''), i)"
| "ItemFrom d i (WIRI s) =
     Ret (None, set_Metadata (Some (emptyItemMetadata\<lparr>im_ID := s\<rparr>))
                  (set_Hash (hashFrom d (WIRI s)) (set_pub (WIRI s) i)))"
| "ItemFrom d i (WColl c) = Ret (Some (Newf ''invalid object type''), set_pub (WColl c) i)"
| "ItemFrom d i (WObj od url att ctx irt to cc bcc actor obj) =
     (let it = WObj od url att ctx irt to cc bcc actor obj; i0 = set_pub it i in
      if o_Type od \<in> set LinkTypes then
        Ret (None, set_Metadata (Some (emptyItemMetadata\<lparr>im_ID := o_ID od\<rparr>))
                     (set_Hash (hashFrom d (WIRI (o_ID od))) i0))
      else if o_Type od = DeleteType then
        (case ItemFrom d i0 obj of
           Panic \<Rightarrow> Panic
         | Ret (err, i1) \<Rightarrow> Ret (err, set_Deleted True i1))
      else if o_Type od \<in> {CreateType, UpdateType, ActivityType} then
        (if o_Type od \<notin> {CreateType, UpdateType}
         then Ret (Some (Newf ''Invalid activity to load from''), i0)
         else case ItemFrom d i0 obj of
           Panic \<Rightarrow> Panic
         | Ret (Some e, i1) \<Rightarrow> Ret (Some e, i1)
         | Ret (None, i1) \<Rightarrow> activityTail d actor to cc i1)
      else if o_Type od \<in> {ArticleType, NoteType, DocumentType, PageType} then
        FromArticle d i0 it
      else if o_Type od \<in> {ImageType, VideoType, AudioType} then
        FromArticle d i0 it
      else if o_Type od = TombstoneType then
        (case (if ctx = WNil then Ret (tombstoneHead d od i0)
               else case ItemFrom d emptyItem ctx of
                 Panic \<Rightarrow> Panic
               | Ret (None, op) \<Rightarrow> Ret (set_OP (Some op) (tombstoneHead d od i0))
               | Ret (Some e, op) \<Rightarrow> Ret (tombstoneHead d od i0)) of
           Panic \<Rightarrow> Panic
         | Ret i3 \<Rightarrow>
            (case (if replyTarget irt = WNil then Ret i3
                   else case ItemFrom d emptyItem (replyTarget irt) of
                     Panic \<Rightarrow> Panic
                   | Ret (None, par) \<Rightarrow> Ret (attachParent par i3)
                   | Ret (Some e, par) \<Rightarrow> Ret i3) of
               Panic \<Rightarrow> Panic
             | Ret i4 \<Rightarrow> Ret (None, tombstoneTail d od i4)))
      else Ret (Some (Newf ''invalid object type''), i0))"
| "FromArticle d i (WObj od url att ctx irt to cc bcc actor obj) =
     (let a = WObj od url att ctx irt to cc bcc actor obj in
      case (if ctx = WNil then Ret (articleHead d i a)
            else case ItemFrom d emptyItem ctx of
              Panic \<Rightarrow> Panic
            | Ret (err, op) \<Rightarrow> Ret (set_OP (Some op) (articleHead d i a))) of
        Panic \<Rightarrow> Panic
      | Ret i7 \<Rightarrow>
         (case (if replyTarget irt = WNil then Ret i7
                else case ItemFrom d emptyItem (replyTarget irt) of
                  Panic \<Rightarrow> Panic
                | Ret (err, par) \<Rightarrow> Ret (attachParent par i7)) of
            Panic \<Rightarrow> Panic
          | Ret i8 \<Rightarrow>
             (case articleTail d a i8 of
                Panic \<Rightarrow> Panic
              | Ret i11 \<Rightarrow> Ret (None, i11))))"
| "FromArticle d i WNil = Ret (Some (Newf ''unable to convert to object''), i)"
| "FromArticle d i (WIRI s) = Ret (Some (Newf ''unable to convert to object''), i)"
| "FromArticle d i (WColl c) = Ret (Some (Newf ''unable to convert to object''), i)"
  by pat_completeness auto

termination
proof (relation "measures [(\<lambda>x. case x of Inl (d, i, w) \<Rightarrow> size w | Inr (d, i, w) \<Rightarrow> size w),
                           (\<lambda>x. case x of Inl _ \<Rightarrow> 1 | Inr _ \<Rightarrow> 0)]", goal_cases)
  case 1
  then show ?case by simp
next
  case (2 d i od url att ctx irt to cc bcc actor obj)
  then show ?case by simp
next
  case (3 d i od url att ctx irt to cc bcc actor obj)
  then show ?case by simp
next
  case (4 d i od url att ctx irt to cc bcc actor obj)
  then show ?case by simp
next
  case (5 d i od url att ctx irt to cc bcc actor obj)
  then show ?case by simp
next
  case (6 d i od url att ctx irt to cc bcc actor obj)
  then show ?case by simp
next
  case (7 d i od url att ctx irt to cc bcc actor obj)
  have "size (replyTarget irt) \<le> size irt"
  proof (cases irt)
    case (WColl c)
    then show ?thesis by (cases c) (simp_all add: replyTarget_def)
  qed (simp_all add: replyTarget_def)
  then show ?case by simp
next
  case (8 d i od url att ctx irt to cc bcc actor obj)
  then show ?case by simp
next
  case (9 d i od url att ctx irt to cc bcc actor obj)
  have "size (replyTarget irt) \<le> size irt"
  proof (cases irt)
    case (WColl c)
    then show ?thesis by (cases c) (simp_all add: replyTarget_def)
  qed (simp_all add: replyTarget_def)
  then show ?case by simp
qed

text \<open>The parent chain of an item: its parent, the parent's parent, up to the root.\<close>

fun parentChain :: "Item \<Rightarrow> Item list" where
  "parentChain (Item h t m d sb p op md del prv sa ua pb) =
     (case p of None \<Rightarrow> [] | Some q \<Rightarrow> q # parentChain q)"

text \<open>A concrete instance of the decoder's parameters, for evaluating it on examples.\<close>

definition deps0 :: deps where
  "deps0 = \<lparr>HashFromItem = (\<lambda>s. s), AnonymousHash = ''anonymous'',
            AnonymousAccount = Account ''anonymous'' ''anonymous'' None False [],
            accountFrom = (\<lambda>a w. a), sanitizeStrict = (\<lambda>s. s), sanitizeUGC = (\<lambda>s. s),
            validCollection = (\<lambda>s. None)\<rparr>"

definition emptyObjectData :: ObjectData where
  "emptyObjectData = \<lparr>o_ID = [], o_Type = NoType, o_Name = [], o_Content = [], o_Summary = [],
     o_MediaType = [], o_SourceContent = [], o_SourceMediaType = [],
     o_Published = 0, o_Updated = 0, o_Deleted = 0\<rparr>"

text \<open>A note, given its identifier and what it replies to; every other field is empty.\<close>

definition mkNote :: "string \<Rightarrow> Wire \<Rightarrow> Wire" where
  "mkNote ident irt =
     WObj (emptyObjectData\<lparr>o_ID := ident, o_Type := NoteType\<rparr>) WNil WNil WNil irt [] [] [] WNil WNil"

record VoteMetadata =
  vm_IRI :: string
  vm_OriginalIRI :: string

record Vote =
  v_SubmittedBy :: "Account option"
  v_SubmittedAt :: Time
  v_UpdatedAt :: Time
  v_Weight :: int
  v_Item :: "Item option"
  v_Metadata :: "VoteMetadata option"
  v_pub :: Wire

definition emptyVote :: Vote where
  "emptyVote = \<lparr>v_SubmittedBy = None, v_SubmittedAt = 0, v_UpdatedAt = 0, v_Weight = 0,
                 v_Item = None, v_Metadata = None, v_pub = WNil\<rparr>"

definition ActivityTypes :: "ActivityVocabularyType list" where
  "ActivityTypes = [ActivityType, CreateType, UpdateType, DeleteType, LikeType, DislikeType,
     UndoType, FollowType, AcceptType, RejectType, BlockType, FlagType, IgnoreType]"

text \<open>
  \<^verbatim>\<open>Vote.FromActivityPub\<close>. The receiver keeps the activity in \<^verbatim>\<open>pub\<close> when the item is
  one. For the three appreciation types the object is decoded as the item voted on (its
  error dropped) and the actor as the submitter; the weight follows the type. The undo
  branch reads \<^verbatim>\<open>act.Object.GetLink()\<close>, a panic when the activity has no object. Any
  other type leaves the receiver as it is and returns no error.
\<close>

fun VoteFrom :: "deps \<Rightarrow> Vote \<Rightarrow> Wire \<Rightarrow> (error option \<times> Vote) outcome" where
  "VoteFrom d v WNil = Ret (Some (Newf ''nil item received''), v)"
| "VoteFrom d v (WIRI s) = Ret (Some (Newf ''unable to load from IRI''), v\<lparr>v_pub := WNil\<rparr>)"
| "VoteFrom d v (WColl c) = Ret (None, v\<lparr>v_pub := WNil\<rparr>)"
| "VoteFrom d v (WObj od url att ctx irt to cc bcc actor obj) =
     (let it = WObj od url att ctx irt to cc bcc actor obj;
          v0 = v\<lparr>v_pub := (if o_Type od \<in> set ActivityTypes then it else WNil)\<rparr> in
      if o_Type od \<in> set LinkTypes then Ret (Some (Newf ''unable to load from IRI''), v0)
      else if o_Type od \<in> {UndoType, LikeType, DislikeType} then
        (case ItemFrom d emptyItem obj of
           Panic \<Rightarrow> Panic
         | Ret (err, on) \<Rightarrow>
            (let v1 = v0\<lparr>v_Item := Some on,
                          v_SubmittedBy :=
                            Some (accountFrom d (Account [] [] (Some emptyAccountMetadata) False []) actor),
                          v_SubmittedAt := o_Published od,
                          v_UpdatedAt := o_Updated od,
                          v_Metadata := Some \<lparr>vm_IRI = o_ID od, vm_OriginalIRI = []\<rparr>\<rparr>;
                 v2 = (if o_Type od = LikeType then v1\<lparr>v_Weight := 1\<rparr> else v1);
                 v3 = (if o_Type od = DislikeType then v2\<lparr>v_Weight := - 1\<rparr> else v2)
             in if o_Type od = UndoType
                then (if obj = WNil then Panic
                      else Ret (None, v3\<lparr>v_Weight := 0,
                                         v_Metadata := Some \<lparr>vm_IRI = o_ID od,
                                                              vm_OriginalIRI = GetLink obj\<rparr>\<rparr>))
                else Ret (None, v3)))
      else Ret (None, v0))"

text \<open>An activity of a given type and identifier, with its actor and object.\<close>

definition mkActivity :: "ActivityVocabularyType \<Rightarrow> string \<Rightarrow> Wire \<Rightarrow> Wire \<Rightarrow> Wire" where
  "mkActivity typ ident actor obj =
     WObj (emptyObjectData\<lparr>o_ID := ident, o_Type := typ\<rparr>) WNil WNil WNil WNil [] [] [] actor obj"

section \<open>Encoding items\<close>

text \<open>
  \<^verbatim>\<open>strings.Count\<close> for a one-byte separator and for the two-byte separator CR LF
  (occurrences of which cannot overlap).
\<close>

definition count_char :: "char \<Rightarrow> string \<Rightarrow> nat" where
  "count_char c s = length (filter (\<lambda>x. x = c) s)"

fun count_crlf :: "string \<Rightarrow> nat" where
  "count_crlf (a # b # s) =
     (if a = CHR 0x0D \<and> b = CHR 0x0A then 1 + count_crlf s else count_crlf (b # s))"
| "count_crlf s = 0"

definition wordCount :: "string \<Rightarrow> nat" where
  "wordCount s =
     count_char CHR '' '' s + count_char CHR 0x09 s + count_char CHR 0x0A s + count_crlf s"

text \<open>
  The helpers of the encoder whose bodies are outside the sources, as parameters:
  \<^verbatim>\<open>Item.IsValid\<close>, \<^verbatim>\<open>ItemPermaLink\<close>, \<^verbatim>\<open>Markdown\<close>, \<^verbatim>\<open>url.PathEscape\<close>, and the three
  package variables holding the URLs of the service.
\<close>

record enc =
  ItemIsValid :: "Item \<Rightarrow> bool"
  ItemPermaLink :: "Item \<Rightarrow> string"
  Markdown :: "string \<Rightarrow> string"
  PathEscape :: "string \<Rightarrow> string"
  BaseURL :: string
  ObjectsURL :: string
  ActorsURL :: string

text \<open>\<^verbatim>\<open>BuildIDFromItem\<close>: \<^verbatim>\<open>None\<close> is the result \<^verbatim>\<open>("", false)\<close>.\<close>

definition BuildIDFromItem :: "enc \<Rightarrow> Item \<Rightarrow> string option" where
  "BuildIDFromItem e i =
     (if \<not> ItemIsValid e i then None
      else case it_Metadata i of
        Some m \<Rightarrow> if length (im_ID m) > 0 then Some (im_ID m)
                  else Some (ObjectsURL e @ ''/'' @ PathEscape e (it_Hash i))
      | None \<Rightarrow> Some (ObjectsURL e @ ''/'' @ PathEscape e (it_Hash i)))"

definition BuildActorID :: "enc \<Rightarrow> Account \<Rightarrow> string" where
  "BuildActorID e a =
     (if \<not> IsValid a then PublicNS
      else case acc_Metadata a of
        Some m \<Rightarrow> if length (am_ID m) > 0 then am_ID m
                  else ActorsURL e @ ''/'' @ PathEscape e (acc_Hash a)
      | None \<Rightarrow> ActorsURL e @ ''/'' @ PathEscape e (acc_Hash a))"

text \<open>Appending an IRI to a collection unless the collection contains it.\<close>

definition appendNew :: "string \<Rightarrow> Wire list \<Rightarrow> Wire list" where
  "appendNew iri col = (if WIRI iri \<in> set col then col else col @ [WIRI iri])"

text \<open>
  The loop of \<^verbatim>\<open>loadAPItem\<close> over the ancestors of the item, starting at its parent: each
  ancestor with an identifier joins \<^verbatim>\<open>repl\<close>; the author of the first ancestor that has a
  valid, non-public one joins \<^verbatim>\<open>to\<close>, the authors of the later ones join \<^verbatim>\<open>cc\<close>.
\<close>

fun walkParents ::
  "enc \<Rightarrow> Item \<Rightarrow> bool \<Rightarrow> Wire list \<Rightarrow> Wire list \<Rightarrow> Wire list \<Rightarrow> Wire list \<times> Wire list \<times> Wire list" where
  "walkParents e (Item h t m d sb par op md del prv sa ua pb) first repl to cc =
     (let p = Item h t m d sb par op md del prv sa ua pb;
          repl' = (case BuildIDFromItem e p of Some i \<Rightarrow> repl @ [WIRI i] | None \<Rightarrow> repl);
          pAuth = (case sb of Some a \<Rightarrow> if IsValid a \<and> BuildActorID e a \<noteq> PublicNS
                                          then Some (BuildActorID e a) else None
                   | None \<Rightarrow> None);
          to' = (case pAuth of Some a \<Rightarrow> if first then appendNew a to else to | None \<Rightarrow> to);
          cc' = (case pAuth of Some a \<Rightarrow> if first then cc else appendNew a cc | None \<Rightarrow> cc);
          first' = (case pAuth of Some a \<Rightarrow> False | None \<Rightarrow> first)
      in case par of
           None \<Rightarrow> (repl', to', cc')
         | Some q \<Rightarrow> walkParents e q first' repl' to' cc')"

text \<open>
  The recipients listed in the metadata of the item. \<^verbatim>\<open>rec.Metadata.ID\<close> is a nil
  dereference for a recipient without metadata.
\<close>

fun addRecipients :: "Account list \<Rightarrow> Wire list \<Rightarrow> Wire list outcome" where
  "addRecipients [] col = Ret col"
| "addRecipients (r # rs) col =
     (case acc_Metadata r of
        None \<Rightarrow> Panic
      | Some m \<Rightarrow> addRecipients rs (appendNew (am_ID m) col))"

text \<open>
  \<^verbatim>\<open>loadAPItem\<close>, writing an item into the object \<^verbatim>\<open>o\<close>, in the order of the code. First
  the type and the content: a URL item is a page; any other item is an article when its
  word count exceeds the threshold and a note otherwise, its name is reset, and its
  content is written according to the MIME type. The threshold is an argument here; the
  code fixes it to 300.
\<close>

definition encodeContent :: "nat \<Rightarrow> enc \<Rightarrow> Item \<Rightarrow> ObjectData \<Rightarrow> ObjectData" where
  "encodeContent threshold e item od1 =
     (if it_MimeType item = MimeTypeURL then od1\<lparr>o_Type := PageType\<rparr>
      else
        (let od' = od1\<lparr>o_Type := (if wordCount (it_Data item) > threshold
                                     then ArticleType else NoteType),
                          o_Name := []\<rparr>
         in if it_MimeType item = MimeTypeMarkdown then
              (let od'' = od'\<lparr>o_SourceMediaType := it_MimeType item,
                               o_MediaType := MimeTypeHTML\<rparr>
               in if it_Data item \<noteq> []
                  then od''\<lparr>o_SourceContent := nlv_Set ''en'' (it_Data item) (o_SourceContent od''),
                            o_Content := nlv_Set ''en'' (Markdown e (it_Data item)) (o_Content od'')\<rparr>
                  else od'')
            else if it_MimeType item = MimeTypeText \<or> it_MimeType item = MimeTypeHTML then
              od'\<lparr>o_MediaType := it_MimeType item,
                   o_Content := nlv_Set ''en'' (it_Data item) (o_Content od')\<rparr>
            else od'))"

definition encodeURL :: "enc \<Rightarrow> Item \<Rightarrow> Wire \<Rightarrow> Wire" where
  "encodeURL e item url =
     (if it_MimeType item = MimeTypeURL then WIRI (it_Data item)
      else if length (it_Hash item) > 0 then WIRI (ItemPermaLink e item)
      else url)"

text \<open>
  The rest of \<^verbatim>\<open>loadAPItem\<close> for an item that is not deleted: title, author, the reply
  chain and the recipients. The three recipient lists are built from empty ones and
  replace those of the object.
\<close>

definition encodeEnvelope ::
  "enc \<Rightarrow> Item \<Rightarrow> ObjectData \<Rightarrow> Wire \<Rightarrow> Wire \<Rightarrow> Wire \<Rightarrow> Wire \<Rightarrow> Wire \<Rightarrow> Wire \<Rightarrow> Wire outcome" where
  "encodeEnvelope e item od3 url2 att ctx irt actor obj =
     (let od4 = (if it_Title item \<noteq> []
                 then od3\<lparr>o_Name := nlv_Set ''en'' (it_Title item) (o_Name od3)\<rparr> else od3);
          att' = (case it_SubmittedBy item of
                    Some a \<Rightarrow> WIRI (BuildActorID e a) | None \<Rightarrow> att);
          walked = (case it_Parent item of
                      None \<Rightarrow> ([], [], [])
                    | Some p \<Rightarrow> walkParents e p True [] [] []);
          repl = fst walked; to1 = fst (snd walked); cc1 = snd (snd walked);
          ctx' = (case it_OP item of
                    Some op \<Rightarrow> (case BuildIDFromItem e op of
                                  Some i \<Rightarrow> WIRI i | None \<Rightarrow> ctx)
                  | None \<Rightarrow> ctx);
          irt' = (if length repl > 0 then WColl repl else irt);
          to2 = (if \<not> it_Private item then to1 @ [WIRI PublicNS] else to1);
          bcc = (if \<not> it_Private item then [WIRI (BaseURL e)] else [])
      in case it_Metadata item of
           None \<Rightarrow> Ret (WObj od4 url2 att' ctx' irt' to2 cc1 bcc actor obj)
         | Some m \<Rightarrow>
            (case addRecipients (im_To m) to2 of
               Panic \<Rightarrow> Panic
             | Ret to3 \<Rightarrow>
                (case addRecipients (im_CC m) cc1 of
                   Panic \<Rightarrow> Panic
                 | Ret cc2 \<Rightarrow> Ret (WObj od4 url2 att' ctx' irt' to3 cc2 bcc actor obj))))"

text \<open>
  The whole function. For a deleted item the code builds a tombstone, assigns it to its
  own parameter and returns: the caller's object keeps what was written up to then.
  Tags and mentions are left out, as on the wire.
\<close>

fun loadAPItemAt :: "nat \<Rightarrow> enc \<Rightarrow> Wire \<Rightarrow> Item \<Rightarrow> Wire outcome" where
  "loadAPItemAt threshold e (WObj od url att ctx irt to0 cc0 bcc0 actor obj) item =
     (let od1 = (case BuildIDFromItem e item of Some i \<Rightarrow> od\<lparr>o_ID := i\<rparr> | None \<Rightarrow> od);
          od2 = encodeContent threshold e item od1;
          url2 = encodeURL e item url;
          od3 = od2\<lparr>o_Published := it_SubmittedAt item, o_Updated := it_UpdatedAt item\<rparr>
      in if it_Deleted item then Ret (WObj od3 url2 att ctx irt to0 cc0 bcc0 actor obj)
         else encodeEnvelope e item od3 url2 att ctx irt actor obj)"
| "loadAPItemAt threshold e w item = Ret w"

definition loadAPItem :: "enc \<Rightarrow> Wire \<Rightarrow> Item \<Rightarrow> Wire outcome" where
  "loadAPItem = loadAPItemAt 300"

text \<open>The type tag of a wire value replaced; every other field kept.\<close>

fun withType :: "ActivityVocabularyType \<Rightarrow> Wire \<Rightarrow> Wire" where
  "withType t (WObj od url att ctx irt to cc bcc actor obj) =
     WObj (od\<lparr>o_Type := t\<rparr>) url att ctx irt to cc bcc actor obj"
| "withType t w = w"

fun map_outcome :: "('a \<Rightarrow> 'b) \<Rightarrow> 'a outcome \<Rightarrow> 'b outcome" where
  "map_outcome f Panic = Panic"
| "map_outcome f (Ret x) = Ret (f x)"

text \<open>
  The count in the spec's words, "whitespace-delimited tokens": the maximal runs of
  characters other than space, tab, line feed and carriage return. The flag tells
  whether the previous character was inside a token.
\<close>

definition isSpace :: "char \<Rightarrow> bool" where
  "isSpace c = (c = CHR '' '' \<or> c = CHR 0x09 \<or> c = CHR 0x0A \<or> c = CHR 0x0D)"

fun tokensFrom :: "bool \<Rightarrow> string \<Rightarrow> nat" where
  "tokensFrom inTok [] = 0"
| "tokensFrom inTok (c # s) =
     (if isSpace c then tokensFrom False s
      else (if inTok then 0 else 1) + tokensFrom True s)"

definition spec_tokens :: "string \<Rightarrow> nat" where
  "spec_tokens s = tokensFrom False s"

text \<open>Concrete parameters of the encoder and an empty object, for examples.\<close>

definition enc0 :: enc where
  "enc0 = \<lparr>ItemIsValid = (\<lambda>i. it_Hash i \<noteq> []), ItemPermaLink = (\<lambda>i. ''/i/'' @ it_Hash i),
           Markdown = (\<lambda>s. s), PathEscape = (\<lambda>s. s), BaseURL = ''http://fedbox.git'',
           ObjectsURL = ''http://fedbox.git/objects'', ActorsURL = ''http://fedbox.git/actors''\<rparr>"

definition emptyObject :: Wire where
  "emptyObject = WObj emptyObjectData WNil WNil WNil WNil [] [] [] WNil WNil"

text \<open>An item that carries only a MIME type and content.\<close>

definition textItem :: "string \<Rightarrow> string \<Rightarrow> Item" where
  "textItem mime content = Item [] [] mime content None None None None False False 0 0 WNil"

section \<open>Walking a collection\<close>

text \<open>
  Of the filters only the fields that the walk and its accumulators read or write are
  kept. A collection is one of the four collection types, with its items, the size it
  declares (what \<^verbatim>\<open>Count()\<close> returns) and its three links.
\<close>

record Filters =
  f_Next :: string
  f_Prev :: string
  f_MaxItems :: nat

datatype CollectionType =
  OrderedCollectionPageType | OrderedCollectionType | CollectionPageType | CollectionType

record Collection =
  c_Type :: CollectionType
  c_Items :: "Wire list"
  c_Count :: nat
  c_Prev :: Wire
  c_Next :: Wire
  c_First :: Wire

text \<open>
  What the code takes from the URL package, as parameters: the value of a query
  parameter of an IRI (empty when the IRI does not parse or has none) and the last
  element of its path.
\<close>

record urls =
  queryGet :: "string \<Rightarrow> string \<Rightarrow> string"
  pathLast :: "string \<Rightarrow> string"

text \<open>
  \<^verbatim>\<open>getCollectionPrevNext\<close>. The query of a nil link is empty. On a collection that is
  not a page and whose first link carries no \<^verbatim>\<open>after\<close>, the next token is read off the
  last item, and \<^verbatim>\<open>GetLink\<close> on a nil item panics.
\<close>

definition qGet :: "urls \<Rightarrow> string \<Rightarrow> Wire \<Rightarrow> string" where
  "qGet u key i = (if i = WNil then [] else queryGet u (GetLink i) key)"

definition isPage :: "Collection \<Rightarrow> bool" where
  "isPage col = (c_Type col = OrderedCollectionPageType \<or> c_Type col = CollectionPageType)"

definition getCollectionPrevNext :: "urls \<Rightarrow> Collection \<Rightarrow> (string \<times> string) outcome" where
  "getCollectionPrevNext u col =
     (if isPage col then Ret (qGet u ''before'' (c_Prev col), qGet u ''after'' (c_Next col))
      else if qGet u ''after'' (c_First col) = [] \<and> length (c_Items col) > 0
      then (if last (c_Items col) = WNil then Panic
            else Ret ([], pathLast u (GetLink (last (c_Items col)))))
      else Ret ([], qGet u ''after'' (c_First col)))"

text \<open>
  The cursor of a walk, with the filters it points to and the running count, and two
  observations the code does not keep: the number of fetches made and the pages handed
  to the accumulator, latest first.
\<close>

record colCursor =
  cur_filters :: Filters
  cur_processed :: nat
  cur_fetches :: nat
  cur_seen :: "Collection list"

definition newCursor :: "Filters \<Rightarrow> colCursor" where
  "newCursor f = \<lparr>cur_filters = f, cur_processed = 0, cur_fetches = 0, cur_seen = []\<rparr>"

text \<open>
  The world \<^typ>\<open>'w\<close> holds whatever the fetch function and the accumulator read and
  write: the remote service and the variables the closures capture. The accumulator also
  sees the filters of the cursor, which the closures in the repository read.
\<close>

type_synonym 'w CollectionFn = "'w \<Rightarrow> Filters \<Rightarrow> (error + Collection) \<times> 'w"
type_synonym 'w accumFn = "'w \<Rightarrow> Filters \<Rightarrow> Collection \<Rightarrow> (bool \<times> error option) \<times> 'w"

text \<open>How one turn of the loop of \<^verbatim>\<open>LoadFromCollection\<close> ends.\<close>

datatype turn = Continue | Returned "error option" | Panicked

text \<open>
  One turn of the loop: fetch a page, hand it to the accumulator, read the tokens off
  the page, add its length to the running count, and decide. The loop goes on when the
  next token is not empty, the running count differs from the declared size and the
  accumulator did not ask to stop.
\<close>

definition loopTurn ::
  "urls \<Rightarrow> 'w CollectionFn \<Rightarrow> 'w accumFn \<Rightarrow> colCursor \<Rightarrow> 'w \<Rightarrow> turn \<times> colCursor \<times> 'w" where
  "loopTurn u f accum cur w =
     (case f w (cur_filters cur) of
        (Inl err, w1) \<Rightarrow> (Returned (Some err), cur\<lparr>cur_fetches := cur_fetches cur + 1\<rparr>, w1)
      | (Inr col, w1) \<Rightarrow>
         (let cur1 = cur\<lparr>cur_fetches := cur_fetches cur + 1, cur_seen := col # cur_seen cur\<rparr> in
          case accum w1 (cur_filters cur) col of
            ((status, Some err), w2) \<Rightarrow> (Returned (Some err), cur1, w2)
          | ((status, None), w2) \<Rightarrow>
             (case getCollectionPrevNext u col of
                Panic \<Rightarrow> (Panicked, cur1, w2)
              | Ret (prev, next) \<Rightarrow>
                 (let fl = (cur_filters cur)\<lparr>f_Next := next\<rparr>;
                      fl' = (if cur_processed cur = 0 then fl\<lparr>f_Prev := prev\<rparr> else fl);
                      processed = cur_processed cur + length (c_Items col);
                      cur2 = cur1\<lparr>cur_filters := fl', cur_processed := processed\<rparr>
                  in if (length next = 0 \<or> processed = c_Count col) \<or> status
                     then (Returned None, cur2, w2)
                     else (Continue, cur2, w2)))))"

text \<open>
  \<^verbatim>\<open>LoadFromCollection\<close>. The loop has no bound of its own, so the function takes fuel,
  one unit per turn, and \<^verbatim>\<open>None\<close> says that the fuel ran out before the loop ended.
\<close>

fun LoadFromCollection ::
  "nat \<Rightarrow> urls \<Rightarrow> 'w CollectionFn \<Rightarrow> 'w accumFn \<Rightarrow> colCursor \<Rightarrow> 'w
     \<Rightarrow> (turn \<times> colCursor \<times> 'w) option" where
  "LoadFromCollection 0 u f accum cur w = None"
| "LoadFromCollection (Suc fuel) u f accum cur w =
     (case loopTurn u f accum cur w of
        (Continue, cur', w') \<Rightarrow> LoadFromCollection fuel u f accum cur' w'
      | (t, cur', w') \<Rightarrow> Some (t, cur', w'))"

text \<open>
  A service that pages a collection of \<^verbatim>\<open>total\<close> items, \<^verbatim>\<open>pageSize\<close> at a time: the
  world counts the items served so far, every page declares the total and carries a next
  link, and the last page is the short one. The items are references \<^verbatim>\<open>WIRI ''i''\<close>.
\<close>

definition pagedService :: "nat \<Rightarrow> nat \<Rightarrow> nat CollectionFn" where
  "pagedService tot pageSize served fl =
     (let n = min pageSize (tot - served) in
      (Inr \<lparr>c_Type = OrderedCollectionPageType, c_Items = replicate n (WIRI ''i''),
            c_Count = tot, c_Prev = WNil, c_Next = WIRI ''next'', c_First = WNil\<rparr>,
       served + n))"

text \<open>
  The paging discipline, for any fetch function: some measure of the world tells how many
  items were served, and every fetch returns a page that declares \<^verbatim>\<open>total\<close> and holds
  the next \<^verbatim>\<open>pageSize\<close> items, or the remaining ones when they are fewer, none of them nil.
\<close>

definition paged :: "nat \<Rightarrow> nat \<Rightarrow> ('w \<Rightarrow> nat) \<Rightarrow> 'w CollectionFn \<Rightarrow> 'w accumFn \<Rightarrow> bool" where
  "paged tot pageSize served f accum =
     ((\<forall>w fl. \<exists>col w'. f w fl = (Inr col, w')
          \<and> c_Count col = tot
          \<and> length (c_Items col) = min pageSize (tot - served w)
          \<and> WNil \<notin> set (c_Items col)
          \<and> served w' = served w + length (c_Items col))
      \<and> (\<forall>w fl col. served (snd (accum w fl col)) = served w))"

text \<open>Concrete URL functions and accumulators, for examples.\<close>

definition urls0 :: urls where
  "urls0 = \<lparr>queryGet = (\<lambda>iri key. if key = ''after'' then iri else []), pathLast = (\<lambda>iri. iri)\<rparr>"

definition accumNever :: "'w accumFn" where
  "accumNever w fl col = ((False, None), w)"

definition emptyFilters :: Filters where
  "emptyFilters = \<lparr>f_Next = [], f_Prev = [], f_MaxItems = 0\<rparr>"

text \<open>
  A service defined by the list of pages it will return, one per fetch; when the
  list is used up it fails.
\<close>

definition scripted :: "Collection list CollectionFn" where
  "scripted pages fl =
     (case pages of
        [] \<Rightarrow> (Inl (Remote ''no more pages''), [])
      | p # ps \<Rightarrow> (Inr p, ps))"

definition page :: "nat \<Rightarrow> Wire list \<Rightarrow> Wire \<Rightarrow> Collection" where
  "page tot items nxt =
     \<lparr>c_Type = OrderedCollectionPageType, c_Items = items, c_Count = tot,
      c_Prev = WNil, c_Next = nxt, c_First = WNil\<rparr>"

text \<open>
  The number of turns needed for what remains of a collection: the remaining items divided
  by the page size, rounded up, and one at least, since the loop fetches before it tests.
\<close>

definition turnsNeeded :: "nat \<Rightarrow> nat \<Rightarrow> nat \<Rightarrow> nat" where
  "turnsNeeded tot pageSize processed = max 1 ((tot - processed + pageSize - 1) div pageSize)"

text \<open>The bound in the spec's words, \<^verbatim>\<open>ceil(total/pageSize)\<close>.\<close>

definition ceilDiv :: "nat \<Rightarrow> nat \<Rightarrow> nat" where
  "ceilDiv tot pageSize = (tot + pageSize - 1) div pageSize"

text \<open>Filters that ask for pages of two items.\<close>

definition pagesOfTwo :: Filters where
  "pagesOfTwo = \<lparr>f_Next = [], f_Prev = [], f_MaxItems = 2\<rparr>"

section \<open>Follow requests\<close>

text \<open>Of a follow request only the submitter is read here.\<close>

record FollowRequest =
  fr_SubmittedBy :: "Account option"
  fr_ID :: string

text \<open>
  What \<^verbatim>\<open>LoadFollowRequests\<close> calls, as parameters over the world \<^typ>\<open>'w\<close>: the two
  fetches of the client, \<^verbatim>\<open>FollowRequest.FromActivityPub\<close>, whose body is outside the
  sources, and \<^verbatim>\<open>loadFollowsAuthors\<close>, which returns the requests with their authors
  resolved and an error. The inbox is fetched for the actor built from the account.
\<close>

record 'w followsEnv =
  Activities :: "'w \<Rightarrow> Filters \<Rightarrow> (error + Collection) \<times> 'w"
  Inbox :: "'w \<Rightarrow> Account \<Rightarrow> Filters \<Rightarrow> (error + Collection) \<times> 'w"
  followFrom :: "Wire \<Rightarrow> error + FollowRequest"
  loadFollowsAuthors :: "'w \<Rightarrow> FollowRequest list \<Rightarrow> (FollowRequest list \<times> error option) \<times> 'w"

text \<open>
  The loop over the fetched collection. An item that does not decode is skipped. For one
  that decodes, \<^verbatim>\<open>*f.SubmittedBy\<close> is a nil dereference when the request has no
  submitter, and \<^verbatim>\<open>ed.Followers\<close> is one when no account was given; the request is kept
  unless its submitter already follows the account.
\<close>

fun collectRequests ::
  "(Wire \<Rightarrow> error + FollowRequest) \<Rightarrow> Account option \<Rightarrow> Wire list \<Rightarrow> FollowRequest list outcome" where
  "collectRequests dec ed [] = Ret []"
| "collectRequests dec ed (fr # rest) =
     (case dec fr of
        Inl err \<Rightarrow> collectRequests dec ed rest
      | Inr f \<Rightarrow>
         (case fr_SubmittedBy f of
            None \<Rightarrow> Panic
          | Some sb \<Rightarrow>
             (case ed of
                None \<Rightarrow> Panic
              | Some e \<Rightarrow>
                 (case collectRequests dec ed rest of
                    Panic \<Rightarrow> Panic
                  | Ret requests \<Rightarrow>
                      if \<not> accountInCollection sb (acc_Followers e) then Ret (f # requests)
                      else Ret requests))))"

text \<open>
  \<^verbatim>\<open>LoadFollowRequests\<close>, returning the requests, their number and the error. The
  default type filter it writes into the filters is not among the fields kept here. The
  error of the fetch guards the loop and is then overwritten by the error of
  \<^verbatim>\<open>loadFollowsAuthors\<close>; the return statement names neither.
\<close>

definition LoadFollowRequests ::
  "'w followsEnv \<Rightarrow> Account option \<Rightarrow> Filters \<Rightarrow> 'w
     \<Rightarrow> ((FollowRequest list \<times> nat \<times> error option) \<times> 'w) outcome" where
  "LoadFollowRequests r ed f w =
     (case (case ed of None \<Rightarrow> Activities r w f | Some e \<Rightarrow> Inbox r w e f) of
        (Inl err, w1) \<Rightarrow> Ret (([], 0, None), w1)
      | (Inr followReq, w1) \<Rightarrow>
          if length (c_Items followReq) > 0 then
            (case collectRequests (followFrom r) ed (c_Items followReq) of
               Panic \<Rightarrow> Panic
             | Ret requests \<Rightarrow>
                 (case loadFollowsAuthors r w1 requests of
                    ((requests', err), w2) \<Rightarrow> Ret ((requests', length requests', None), w2)))
          else Ret (([], 0, None), w1))"

text \<open>The fetch that \<^verbatim>\<open>LoadFollowRequests\<close> makes, on its own.\<close>

definition fetchFollows ::
  "'w followsEnv \<Rightarrow> Account option \<Rightarrow> Filters \<Rightarrow> 'w \<Rightarrow> (error + Collection) \<times> 'w" where
  "fetchFollows r ed f w = (case ed of None \<Rightarrow> Activities r w f | Some e \<Rightarrow> Inbox r w e f)"

text \<open>An environment whose fetches fail with a transport error, for examples.\<close>

definition followsDown :: "unit followsEnv" where
  "followsDown = \<lparr>Activities = (\<lambda>w f. (Inl (Remote ''connection refused''), w)),
                  Inbox = (\<lambda>w a f. (Inl (Remote ''connection refused''), w)),
                  followFrom = (\<lambda>it. Inl (Newf ''not a follow'')),
                  loadFollowsAuthors = (\<lambda>w rs. ((rs, None), w))\<rparr>"

section \<open>Saving items and votes\<close>



















section \<open>Properties\<close>

subsection \<open>Equality of accounts\<close>

text \<open>
  C8, as the spec states it, fails: two accounts with distinct non-empty hashes are
  considered equal by \<^verbatim>\<open>accountsEqual\<close> as soon as they share a non-empty handle.
\<close>

theorem C8_accountsEqual_counterexample:
  "accountsEqual (Account ''aaaaaaaa'' ''bob'' None False []) (Account ''bbbbbbbb'' ''bob'' None False [])
   \<and> acc_Hash (Account ''aaaaaaaa'' ''bob'' None False []) \<noteq> acc_Hash (Account ''bbbbbbbb'' ''bob'' None False [])
   \<and> acc_Hash (Account ''aaaaaaaa'' ''bob'' None False []) \<noteq> []
   \<and> acc_Hash (Account ''bbbbbbbb'' ''bob'' None False []) \<noteq> []"
  by (simp add: accountsEqual_def)

lemma accountInCollection_iff:
  "accountInCollection ac col \<longleftrightarrow> (\<exists>fol \<in> set col. acc_Hash fol = acc_Hash ac)"
  by (induction col) (auto simp: HashesEqual_def)

text \<open>
  C8, amended: \<^verbatim>\<open>accountsEqual\<close> holds exactly when the hashes are byte-equal (two absent
  hashes are equal) or the handles are equal and non-empty, whatever the hashes are;
  only \<^verbatim>\<open>accountInCollection\<close> decides by hashes alone.
\<close>

theorem C8_accountsEqual_amended:
  "(accountsEqual a1 a2 \<longleftrightarrow>
      acc_Hash a1 = acc_Hash a2 \<or> (acc_Handle a1 \<noteq> [] \<and> acc_Handle a1 = acc_Handle a2))
   \<and> (accountInCollection ac col \<longleftrightarrow> (\<exists>fol \<in> set col. acc_Hash fol = acc_Hash ac))"
  by (auto simp: accountsEqual_def accountInCollection_iff)

theorem C8_accountsEqual_amended_witness:
  "accountsEqual (Account [] ''bob'' None False []) (Account ''bbbbbbbb'' ''bob'' None False [])
   \<and> accountInCollection (Account ''bbbbbbbb'' ''eve'' None False [])
        [Account ''aaaaaaaa'' ''bob'' None False [], Account ''bbbbbbbb'' ''bob'' None False []]"
proof
  show "accountsEqual (Account [] ''bob'' None False []) (Account ''bbbbbbbb'' ''bob'' None False [])"
    by (rule C8_accountsEqual_amended [THEN conjunct1, THEN iffD2]) simp
  show "accountInCollection (Account ''bbbbbbbb'' ''eve'' None False [])
        [Account ''aaaaaaaa'' ''bob'' None False [], Account ''bbbbbbbb'' ''bob'' None False []]"
    by (rule C8_accountsEqual_amended [THEN conjunct2, THEN iffD2]) simp
qed

subsection \<open>Signing with an unsupported key\<close>

text \<open>
  C6, as the spec states it, fails: a logged-in account whose key identifier is neither
  the RSA one nor \<^verbatim>\<open>id-ecdsa\<close> gets a signer built on an absent private key, and nothing
  is logged.
\<close>

theorem C6_withAccountS2S_counterexample:
  "withAccountS2S (\<lambda>_. Inl ''no key'') (\<lambda>_. ''k#main-key'')
     (Account ''aaaaaaaa'' ''bob''
        (Some \<lparr>am_ID = ''https://remote/bob'',
               am_Key = Some \<lparr>key_ID = ''id-ed25519'', key_Private = ''x'', key_Public = None\<rparr>,
               am_FollowersIRI = []\<rparr>) True [])
   = Ret (Some \<lparr>sig_KeyID = ''k#main-key'', sig_Key = None\<rparr>, [])"
  by (simp add: withAccountS2S_def IsValid_def IsLogged_def getSigner_def)

text \<open>
  C6, amended: for a valid, logged-in account whose stored key has the identifier
  \<^verbatim>\<open>id-ecdsa\<close>, producing the signer logs the explicit error
  "unsupported private key type id-ecdsa" and yields no signer; the error is logged and
  not returned.
\<close>

theorem C6_withAccountS2S_ecdsa:
  assumes "IsValid a" and "IsLogged a"
    and "acc_Metadata a = Some m" and "am_Key m = Some k" and "key_ID k = ''id-ecdsa''"
  shows "withAccountS2S parse keyIdOf a = Ret (None, [''unsupported private key type id-ecdsa''])"
  using assms by (simp add: withAccountS2S_def)

theorem C6_withAccountS2S_ecdsa_witness:
  "withAccountS2S (\<lambda>_. Inl ''no key'') (\<lambda>_. ''k#main-key'')
     (Account ''aaaaaaaa'' ''bob''
        (Some \<lparr>am_ID = ''https://remote/bob'',
               am_Key = Some \<lparr>key_ID = ''id-ecdsa'', key_Private = ''x'', key_Public = None\<rparr>,
               am_FollowersIRI = []\<rparr>) True [])
   = Ret (None, [''unsupported private key type id-ecdsa''])"
  by (rule C6_withAccountS2S_ecdsa
        [where m = "\<lparr>am_ID = ''https://remote/bob'',
               am_Key = Some \<lparr>key_ID = ''id-ecdsa'', key_Private = ''x'', key_Public = None\<rparr>,
               am_FollowersIRI = []\<rparr>"
           and k = "\<lparr>key_ID = ''id-ecdsa'', key_Private = ''x'', key_Public = None\<rparr>"])
     (simp_all add: IsValid_def IsLogged_def)

subsection \<open>Field updates\<close>

lemma sel_set_Hash [simp]:
  "it_Hash (set_Hash v i) = v"
  "it_Title (set_Hash v i) = it_Title i"
  "it_MimeType (set_Hash v i) = it_MimeType i"
  "it_Data (set_Hash v i) = it_Data i"
  "it_SubmittedBy (set_Hash v i) = it_SubmittedBy i"
  "it_Parent (set_Hash v i) = it_Parent i"
  "it_OP (set_Hash v i) = it_OP i"
  "it_Metadata (set_Hash v i) = it_Metadata i"
  "it_Deleted (set_Hash v i) = it_Deleted i"
  "it_Private (set_Hash v i) = it_Private i"
  "it_SubmittedAt (set_Hash v i) = it_SubmittedAt i"
  "it_UpdatedAt (set_Hash v i) = it_UpdatedAt i"
  "it_pub (set_Hash v i) = it_pub i"
  by (cases i; simp)+

lemma sel_set_Title [simp]:
  "it_Hash (set_Title v i) = it_Hash i"
  "it_Title (set_Title v i) = v"
  "it_MimeType (set_Title v i) = it_MimeType i"
  "it_Data (set_Title v i) = it_Data i"
  "it_SubmittedBy (set_Title v i) = it_SubmittedBy i"
  "it_Parent (set_Title v i) = it_Parent i"
  "it_OP (set_Title v i) = it_OP i"
  "it_Metadata (set_Title v i) = it_Metadata i"
  "it_Deleted (set_Title v i) = it_Deleted i"
  "it_Private (set_Title v i) = it_Private i"
  "it_SubmittedAt (set_Title v i) = it_SubmittedAt i"
  "it_UpdatedAt (set_Title v i) = it_UpdatedAt i"
  "it_pub (set_Title v i) = it_pub i"
  by (cases i; simp)+

lemma sel_set_MimeType [simp]:
  "it_Hash (set_MimeType v i) = it_Hash i"
  "it_Title (set_MimeType v i) = it_Title i"
  "it_MimeType (set_MimeType v i) = v"
  "it_Data (set_MimeType v i) = it_Data i"
  "it_SubmittedBy (set_MimeType v i) = it_SubmittedBy i"
  "it_Parent (set_MimeType v i) = it_Parent i"
  "it_OP (set_MimeType v i) = it_OP i"
  "it_Metadata (set_MimeType v i) = it_Metadata i"
  "it_Deleted (set_MimeType v i) = it_Deleted i"
  "it_Private (set_MimeType v i) = it_Private i"
  "it_SubmittedAt (set_MimeType v i) = it_SubmittedAt i"
  "it_UpdatedAt (set_MimeType v i) = it_UpdatedAt i"
  "it_pub (set_MimeType v i) = it_pub i"
  by (cases i; simp)+

lemma sel_set_Data [simp]:
  "it_Hash (set_Data v i) = it_Hash i"
  "it_Title (set_Data v i) = it_Title i"
  "it_MimeType (set_Data v i) = it_MimeType i"
  "it_Data (set_Data v i) = v"
  "it_SubmittedBy (set_Data v i) = it_SubmittedBy i"
  "it_Parent (set_Data v i) = it_Parent i"
  "it_OP (set_Data v i) = it_OP i"
  "it_Metadata (set_Data v i) = it_Metadata i"
  "it_Deleted (set_Data v i) = it_Deleted i"
  "it_Private (set_Data v i) = it_Private i"
  "it_SubmittedAt (set_Data v i) = it_SubmittedAt i"
  "it_UpdatedAt (set_Data v i) = it_UpdatedAt i"
  "it_pub (set_Data v i) = it_pub i"
  by (cases i; simp)+

lemma sel_set_SubmittedBy [simp]:
  "it_Hash (set_SubmittedBy v i) = it_Hash i"
  "it_Title (set_SubmittedBy v i) = it_Title i"
  "it_MimeType (set_SubmittedBy v i) = it_MimeType i"
  "it_Data (set_SubmittedBy v i) = it_Data i"
  "it_SubmittedBy (set_SubmittedBy v i) = v"
  "it_Parent (set_SubmittedBy v i) = it_Parent i"
  "it_OP (set_SubmittedBy v i) = it_OP i"
  "it_Metadata (set_SubmittedBy v i) = it_Metadata i"
  "it_Deleted (set_SubmittedBy v i) = it_Deleted i"
  "it_Private (set_SubmittedBy v i) = it_Private i"
  "it_SubmittedAt (set_SubmittedBy v i) = it_SubmittedAt i"
  "it_UpdatedAt (set_SubmittedBy v i) = it_UpdatedAt i"
  "it_pub (set_SubmittedBy v i) = it_pub i"
  by (cases i; simp)+

lemma sel_set_Parent [simp]:
  "it_Hash (set_Parent v i) = it_Hash i"
  "it_Title (set_Parent v i) = it_Title i"
  "it_MimeType (set_Parent v i) = it_MimeType i"
  "it_Data (set_Parent v i) = it_Data i"
  "it_SubmittedBy (set_Parent v i) = it_SubmittedBy i"
  "it_Parent (set_Parent v i) = v"
  "it_OP (set_Parent v i) = it_OP i"
  "it_Metadata (set_Parent v i) = it_Metadata i"
  "it_Deleted (set_Parent v i) = it_Deleted i"
  "it_Private (set_Parent v i) = it_Private i"
  "it_SubmittedAt (set_Parent v i) = it_SubmittedAt i"
  "it_UpdatedAt (set_Parent v i) = it_UpdatedAt i"
  "it_pub (set_Parent v i) = it_pub i"
  by (cases i; simp)+

lemma sel_set_OP [simp]:
  "it_Hash (set_OP v i) = it_Hash i"
  "it_Title (set_OP v i) = it_Title i"
  "it_MimeType (set_OP v i) = it_MimeType i"
  "it_Data (set_OP v i) = it_Data i"
  "it_SubmittedBy (set_OP v i) = it_SubmittedBy i"
  "it_Parent (set_OP v i) = it_Parent i"
  "it_OP (set_OP v i) = v"
  "it_Metadata (set_OP v i) = it_Metadata i"
  "it_Deleted (set_OP v i) = it_Deleted i"
  "it_Private (set_OP v i) = it_Private i"
  "it_SubmittedAt (set_OP v i) = it_SubmittedAt i"
  "it_UpdatedAt (set_OP v i) = it_UpdatedAt i"
  "it_pub (set_OP v i) = it_pub i"
  by (cases i; simp)+

lemma sel_set_Metadata [simp]:
  "it_Hash (set_Metadata v i) = it_Hash i"
  "it_Title (set_Metadata v i) = it_Title i"
  "it_MimeType (set_Metadata v i) = it_MimeType i"
  "it_Data (set_Metadata v i) = it_Data i"
  "it_SubmittedBy (set_Metadata v i) = it_SubmittedBy i"
  "it_Parent (set_Metadata v i) = it_Parent i"
  "it_OP (set_Metadata v i) = it_OP i"
  "it_Metadata (set_Metadata v i) = v"
  "it_Deleted (set_Metadata v i) = it_Deleted i"
  "it_Private (set_Metadata v i) = it_Private i"
  "it_SubmittedAt (set_Metadata v i) = it_SubmittedAt i"
  "it_UpdatedAt (set_Metadata v i) = it_UpdatedAt i"
  "it_pub (set_Metadata v i) = it_pub i"
  by (cases i; simp)+

lemma sel_set_Deleted [simp]:
  "it_Hash (set_Deleted v i) = it_Hash i"
  "it_Title (set_Deleted v i) = it_Title i"
  "it_MimeType (set_Deleted v i) = it_MimeType i"
  "it_Data (set_Deleted v i) = it_Data i"
  "it_SubmittedBy (set_Deleted v i) = it_SubmittedBy i"
  "it_Parent (set_Deleted v i) = it_Parent i"
  "it_OP (set_Deleted v i) = it_OP i"
  "it_Metadata (set_Deleted v i) = it_Metadata i"
  "it_Deleted (set_Deleted v i) = v"
  "it_Private (set_Deleted v i) = it_Private i"
  "it_SubmittedAt (set_Deleted v i) = it_SubmittedAt i"
  "it_UpdatedAt (set_Deleted v i) = it_UpdatedAt i"
  "it_pub (set_Deleted v i) = it_pub i"
  by (cases i; simp)+

lemma sel_set_Private [simp]:
  "it_Hash (set_Private v i) = it_Hash i"
  "it_Title (set_Private v i) = it_Title i"
  "it_MimeType (set_Private v i) = it_MimeType i"
  "it_Data (set_Private v i) = it_Data i"
  "it_SubmittedBy (set_Private v i) = it_SubmittedBy i"
  "it_Parent (set_Private v i) = it_Parent i"
  "it_OP (set_Private v i) = it_OP i"
  "it_Metadata (set_Private v i) = it_Metadata i"
  "it_Deleted (set_Private v i) = it_Deleted i"
  "it_Private (set_Private v i) = v"
  "it_SubmittedAt (set_Private v i) = it_SubmittedAt i"
  "it_UpdatedAt (set_Private v i) = it_UpdatedAt i"
  "it_pub (set_Private v i) = it_pub i"
  by (cases i; simp)+

lemma sel_set_SubmittedAt [simp]:
  "it_Hash (set_SubmittedAt v i) = it_Hash i"
  "it_Title (set_SubmittedAt v i) = it_Title i"
  "it_MimeType (set_SubmittedAt v i) = it_MimeType i"
  "it_Data (set_SubmittedAt v i) = it_Data i"
  "it_SubmittedBy (set_SubmittedAt v i) = it_SubmittedBy i"
  "it_Parent (set_SubmittedAt v i) = it_Parent i"
  "it_OP (set_SubmittedAt v i) = it_OP i"
  "it_Metadata (set_SubmittedAt v i) = it_Metadata i"
  "it_Deleted (set_SubmittedAt v i) = it_Deleted i"
  "it_Private (set_SubmittedAt v i) = it_Private i"
  "it_SubmittedAt (set_SubmittedAt v i) = v"
  "it_UpdatedAt (set_SubmittedAt v i) = it_UpdatedAt i"
  "it_pub (set_SubmittedAt v i) = it_pub i"
  by (cases i; simp)+

lemma sel_set_UpdatedAt [simp]:
  "it_Hash (set_UpdatedAt v i) = it_Hash i"
  "it_Title (set_UpdatedAt v i) = it_Title i"
  "it_MimeType (set_UpdatedAt v i) = it_MimeType i"
  "it_Data (set_UpdatedAt v i) = it_Data i"
  "it_SubmittedBy (set_UpdatedAt v i) = it_SubmittedBy i"
  "it_Parent (set_UpdatedAt v i) = it_Parent i"
  "it_OP (set_UpdatedAt v i) = it_OP i"
  "it_Metadata (set_UpdatedAt v i) = it_Metadata i"
  "it_Deleted (set_UpdatedAt v i) = it_Deleted i"
  "it_Private (set_UpdatedAt v i) = it_Private i"
  "it_SubmittedAt (set_UpdatedAt v i) = it_SubmittedAt i"
  "it_UpdatedAt (set_UpdatedAt v i) = v"
  "it_pub (set_UpdatedAt v i) = it_pub i"
  by (cases i; simp)+

lemma sel_set_pub [simp]:
  "it_Hash (set_pub v i) = it_Hash i"
  "it_Title (set_pub v i) = it_Title i"
  "it_MimeType (set_pub v i) = it_MimeType i"
  "it_Data (set_pub v i) = it_Data i"
  "it_SubmittedBy (set_pub v i) = it_SubmittedBy i"
  "it_Parent (set_pub v i) = it_Parent i"
  "it_OP (set_pub v i) = it_OP i"
  "it_Metadata (set_pub v i) = it_Metadata i"
  "it_Deleted (set_pub v i) = it_Deleted i"
  "it_Private (set_pub v i) = it_Private i"
  "it_SubmittedAt (set_pub v i) = it_SubmittedAt i"
  "it_UpdatedAt (set_pub v i) = it_UpdatedAt i"
  "it_pub (set_pub v i) = v"
  by (cases i; simp)+

lemma sel_upd_Metadata [simp]:
  "it_Hash (upd_Metadata f i) = it_Hash i"
  "it_Title (upd_Metadata f i) = it_Title i"
  "it_MimeType (upd_Metadata f i) = it_MimeType i"
  "it_Data (upd_Metadata f i) = it_Data i"
  "it_SubmittedBy (upd_Metadata f i) = it_SubmittedBy i"
  "it_Parent (upd_Metadata f i) = it_Parent i"
  "it_OP (upd_Metadata f i) = it_OP i"
  "it_Deleted (upd_Metadata f i) = it_Deleted i"
  "it_Private (upd_Metadata f i) = it_Private i"
  "it_SubmittedAt (upd_Metadata f i) = it_SubmittedAt i"
  "it_UpdatedAt (upd_Metadata f i) = it_UpdatedAt i"
  "it_pub (upd_Metadata f i) = it_pub i"
  by (simp_all add: upd_Metadata_def)

lemma sel_loadRecipients:
  assumes "loadRecipients d to cc i = Ret i'"
  shows "it_Hash i' = it_Hash i" "it_Title i' = it_Title i" "it_MimeType i' = it_MimeType i"
    "it_Data i' = it_Data i" "it_Parent i' = it_Parent i" "it_OP i' = it_OP i"
    "it_Deleted i' = it_Deleted i"
  using assms by (auto simp: loadRecipients_def split: outcome.splits prod.splits)

lemma sel_attachParent [simp]:
  "it_Parent (attachParent par i) = Some par"
  "it_OP (attachParent par i) = (if it_OP i = None then Some par else it_OP i)"
  by (simp_all add: attachParent_def Let_def)

subsection \<open>Origin of a decoded item\<close>

lemma parentChain_unfold:
  "parentChain i = (case it_Parent i of None \<Rightarrow> [] | Some q \<Rightarrow> q # parentChain q)"
  by (cases i) simp

lemma sel_articleHead [simp]:
  "it_OP (articleHead d i w) = it_OP i" "it_Parent (articleHead d i w) = it_Parent i"
  by (cases w; simp add: Let_def)+

lemma sel_articleTail:
  assumes "articleTail d w i = Ret i'"
  shows "it_OP i' = it_OP i" "it_Parent i' = it_Parent i"
proof -
  have "it_OP i' = it_OP i \<and> it_Parent i' = it_Parent i"
  proof (cases w)
    case (WObj od url att ctx irt to cc bcc actor obj)
    with assms obtain j where j: "loadRecipients d to cc j = Ret i'"
      and "it_OP j = it_OP i" and "it_Parent j = it_Parent i"
      by (simp add: Let_def)
    with sel_loadRecipients(5,6) [OF j] show ?thesis by simp
  qed (use assms in simp_all)
  then show "it_OP i' = it_OP i" "it_Parent i' = it_Parent i" by simp_all
qed

lemma FromArticle_origin:
  assumes "FromArticle d i (WObj od url att WNil irt to cc bcc actor obj) = Ret (err, i')"
    and "it_OP i = None" and "it_Parent i = None"
  shows "it_OP i' = it_Parent i'"
proof -
  let ?a = "WObj od url att WNil irt to cc bcc actor obj"
  let ?i7 = "articleHead d i ?a"
  define r where "r = (if replyTarget irt = WNil then Ret ?i7
      else case ItemFrom d emptyItem (replyTarget irt) of
        Panic \<Rightarrow> Panic | Ret (err, par) \<Rightarrow> Ret (attachParent par ?i7))"
  have "FromArticle d i ?a =
      (case r of Panic \<Rightarrow> Panic
       | Ret i8 \<Rightarrow> (case articleTail d ?a i8 of Panic \<Rightarrow> Panic | Ret i11 \<Rightarrow> Ret (None, i11)))"
    by (simp add: r_def Let_def del: articleHead.simps articleTail.simps)
  with assms(1) obtain i8 where r8: "r = Ret i8" and t: "articleTail d ?a i8 = Ret i'"
    by (auto split: outcome.splits)
  have i7: "it_OP ?i7 = None" "it_Parent ?i7 = None"
    using assms(2,3) by (simp_all del: articleHead.simps)
  have "it_OP i8 = it_Parent i8"
    using r8 i7 unfolding r_def
    by (auto simp del: articleHead.simps split: if_splits outcome.splits prod.splits)
  with sel_articleTail [OF t] show ?thesis by simp
qed

text \<open>An item is larger than every item of its parent chain, so no chain returns to its head.\<close>

lemma parentChain_smaller: "x \<in> set (parentChain q) \<Longrightarrow> size x < size q"
proof (induction q arbitrary: x rule: parentChain.induct)
  case (1 h t m d sb p op md del prv sa ua pb)
  show ?case
  proof (cases p)
    case None
    with 1 show ?thesis by simp
  next
    case (Some q)
    with "1.prems" have "x = q \<or> x \<in> set (parentChain q)" by simp
    then show ?thesis
    proof
      assume "x = q"
      with Some show ?thesis by simp
    next
      assume "x \<in> set (parentChain q)"
      with "1.IH" [OF Some] have "size x < size q" by simp
      with Some show ?thesis by simp
    qed
  qed
qed

lemma last_chain_is_head_iff:
  assumes "it_Parent i = Some q"
  shows "last (parentChain i) = q \<longleftrightarrow> length (parentChain i) = 1"
proof -
  from assms have pc: "parentChain i = q # parentChain q"
    by (subst parentChain_unfold) simp
  show ?thesis
  proof (cases "parentChain q = []")
    case True
    with pc show ?thesis by simp
  next
    case False
    then have "last (parentChain q) \<in> set (parentChain q)" by simp
    then have "size (last (parentChain q)) < size q" by (rule parentChain_smaller)
    then have "last (parentChain q) \<noteq> q" by auto
    with pc False show ?thesis by simp
  qed
qed

text \<open>
  C9, as the spec states it, fails: a note without context that replies to the chain
  [p, root], where the embedded parent p itself replies to root, decodes to an item whose
  parent chain is [p, root] and whose origin is p, the immediate parent and first element
  of the chain, not root, its last element.
\<close>

theorem C9_origin_counterexample:
  "(case ItemFrom deps0 emptyItem
           (mkNote ''n'' (WColl [mkNote ''p'' (WIRI ''root''), WIRI ''root''])) of
      Panic \<Rightarrow> False
    | Ret (err, i) \<Rightarrow>
        err = None \<and> map it_Hash (parentChain i) = [''p'', ''root'']
        \<and> map_option it_Hash (it_OP i) = Some ''p''
        \<and> it_OP i \<noteq> Some (last (parentChain i)))"
  by code_simp

text \<open>
  C9, amended: for every item decoded from an article, note, document or page without a
  wire context into a receiver that has neither parent nor origin, if the decoded item
  has a non-empty parent chain then its origin is its immediate parent, the first element
  of the chain; the origin is the last element of the chain exactly when the chain has
  length one.
\<close>

theorem C9_origin_is_immediate_parent:
  assumes "o_Type od \<in> {ArticleType, NoteType, DocumentType, PageType}"
    and "ItemFrom d i (WObj od url att WNil irt to cc bcc actor obj) = Ret (err, i')"
    and "it_OP i = None" and "it_Parent i = None"
    and "parentChain i' \<noteq> []"
  shows "it_OP i' = it_Parent i' \<and> it_OP i' = Some (hd (parentChain i'))
         \<and> (it_OP i' = Some (last (parentChain i')) \<longleftrightarrow> length (parentChain i') = 1)"
proof -
  let ?it = "WObj od url att WNil irt to cc bcc actor obj"
  from assms(1) have "ItemFrom d i ?it = FromArticle d (set_pub ?it i) ?it"
    by (auto simp: Let_def LinkTypes_def simp del: FromArticle.simps)
  with assms(2) have fa: "FromArticle d (set_pub ?it i) ?it = Ret (err, i')"
    by simp
  have eq: "it_OP i' = it_Parent i'"
    by (rule FromArticle_origin [OF fa]) (simp_all add: assms)
  from assms(5) obtain q where q: "it_Parent i' = Some q"
    by (subst (asm) parentChain_unfold) (auto split: option.splits)
  then have hd: "hd (parentChain i') = q"
    by (subst parentChain_unfold) simp
  from last_chain_is_head_iff [OF q] eq q hd show ?thesis by auto
qed

lemma decode_reply_examples:
  "(case ItemFrom deps0 emptyItem (mkNote ''n'' (WColl [WIRI ''p''])) of
      Panic \<Rightarrow> False
    | Ret (err, i) \<Rightarrow> length (parentChain i) = 1)"
  "(case ItemFrom deps0 emptyItem
           (mkNote ''n'' (WColl [mkNote ''p'' (WIRI ''root''), WIRI ''root''])) of
      Panic \<Rightarrow> False
    | Ret (err, i) \<Rightarrow> length (parentChain i) = 2)"
  by code_simp+

theorem C9_origin_is_immediate_parent_witness:
  "(case ItemFrom deps0 emptyItem
           (mkNote ''n'' (WColl [mkNote ''p'' (WIRI ''root''), WIRI ''root''])) of
      Panic \<Rightarrow> False
    | Ret (err, i) \<Rightarrow>
        length (parentChain i) = 2 \<and> it_OP i = it_Parent i
        \<and> it_OP i = Some (hd (parentChain i)) \<and> it_OP i \<noteq> Some (last (parentChain i)))
   \<and> (case ItemFrom deps0 emptyItem (mkNote ''n'' (WColl [WIRI ''p''])) of
      Panic \<Rightarrow> False
    | Ret (err, i) \<Rightarrow>
        length (parentChain i) = 1 \<and> it_OP i = it_Parent i
        \<and> it_OP i = Some (hd (parentChain i)) \<and> it_OP i = Some (last (parentChain i)))"
proof
  from decode_reply_examples(2) obtain err i
    where r: "ItemFrom deps0 emptyItem
                (mkNote ''n'' (WColl [mkNote ''p'' (WIRI ''root''), WIRI ''root''])) = Ret (err, i)"
      and len: "length (parentChain i) = 2"
    by (auto split: outcome.splits)
  from len have ne: "parentChain i \<noteq> []" by auto
  have "it_OP i = it_Parent i \<and> it_OP i = Some (hd (parentChain i))
         \<and> (it_OP i = Some (last (parentChain i)) \<longleftrightarrow> length (parentChain i) = 1)"
    by (rule C9_origin_is_immediate_parent [OF _ r [unfolded mkNote_def] _ _ ne])
       (simp_all add: emptyObjectData_def emptyItem_def)
  then have "it_OP i = it_Parent i" and "it_OP i = Some (hd (parentChain i))"
    and "it_OP i \<noteq> Some (last (parentChain i))"
    using len by auto
  then show "(case ItemFrom deps0 emptyItem
           (mkNote ''n'' (WColl [mkNote ''p'' (WIRI ''root''), WIRI ''root''])) of
      Panic \<Rightarrow> False
    | Ret (err, i) \<Rightarrow>
        length (parentChain i) = 2 \<and> it_OP i = it_Parent i
        \<and> it_OP i = Some (hd (parentChain i)) \<and> it_OP i \<noteq> Some (last (parentChain i)))"
    unfolding r using len by (simp only: outcome.case prod.case simp_thms)
next
  from decode_reply_examples(1) obtain err i
    where r: "ItemFrom deps0 emptyItem (mkNote ''n'' (WColl [WIRI ''p''])) = Ret (err, i)"
      and len: "length (parentChain i) = 1"
    by (auto split: outcome.splits)
  from len have ne: "parentChain i \<noteq> []" by auto
  have "it_OP i = it_Parent i \<and> it_OP i = Some (hd (parentChain i))
         \<and> (it_OP i = Some (last (parentChain i)) \<longleftrightarrow> length (parentChain i) = 1)"
    by (rule C9_origin_is_immediate_parent [OF _ r [unfolded mkNote_def] _ _ ne])
       (simp_all add: emptyObjectData_def emptyItem_def)
  then have "it_OP i = it_Parent i" and "it_OP i = Some (hd (parentChain i))"
    and "it_OP i = Some (last (parentChain i))"
    using len by auto
  then show "(case ItemFrom deps0 emptyItem (mkNote ''n'' (WColl [WIRI ''p''])) of
      Panic \<Rightarrow> False
    | Ret (err, i) \<Rightarrow>
        length (parentChain i) = 1 \<and> it_OP i = it_Parent i
        \<and> it_OP i = Some (hd (parentChain i)) \<and> it_OP i = Some (last (parentChain i)))"
    unfolding r using len by (simp only: outcome.case prod.case simp_thms)
qed

subsection \<open>Decoding votes\<close>

text \<open>
  C4, as the spec states it, fails. An undo activity whose embedded object carries no
  identifier decodes to weight 0 with an empty original reference; and weight 0 is not
  reserved to undo activities: a follow activity decoded into a fresh vote returns no
  error and leaves weight 0, with no metadata at all.
\<close>

theorem C4_undo_counterexample:
  "(case VoteFrom deps0 emptyVote
           (mkActivity UndoType ''https://remote/activities/2'' (WIRI ''https://remote/actors/bob'')
              (mkActivity LikeType [] (WIRI ''https://remote/actors/bob'') (WIRI ''https://remote/objects/1''))) of
      Panic \<Rightarrow> False
    | Ret (err, v) \<Rightarrow>
        err = None \<and> v_Weight v = 0 \<and> map_option vm_OriginalIRI (v_Metadata v) = Some [])
   \<and> (case VoteFrom deps0 emptyVote
           (mkActivity FollowType ''https://remote/activities/3'' (WIRI ''https://remote/actors/bob'')
              (WIRI ''https://remote/actors/eve'')) of
      Panic \<Rightarrow> False
    | Ret (err, v) \<Rightarrow> err = None \<and> v_Weight v = 0 \<and> v_Metadata v = None)"
  by code_simp

lemma VoteFrom_appreciation:
  assumes "o_Type od \<in> {UndoType, LikeType, DislikeType}"
    and "ItemFrom d emptyItem obj \<noteq> Panic"
    and "o_Type od = UndoType \<longrightarrow> obj \<noteq> WNil"
  shows "\<exists>v'. VoteFrom d v (WObj od url att ctx irt to cc bcc actor obj) = Ret (None, v')
           \<and> v_Weight v' = (if o_Type od = LikeType then 1 else if o_Type od = DislikeType then - 1 else 0)
           \<and> (v_Weight v' = 0 \<longleftrightarrow> o_Type od = UndoType)
           \<and> (o_Type od = UndoType \<longrightarrow>
                map_option vm_OriginalIRI (v_Metadata v') = Some (GetLink obj))"
proof -
  from assms(2) obtain err on where on: "ItemFrom d emptyItem obj = Ret (err, on)"
    by (cases "ItemFrom d emptyItem obj") auto
  from assms(1) consider "o_Type od = UndoType" | "o_Type od = LikeType" | "o_Type od = DislikeType"
    by auto
  then show ?thesis
  proof cases
    case 1
    with assms(3) on show ?thesis by (simp add: LinkTypes_def Let_def)
  next
    case 2
    with on show ?thesis by (simp add: LinkTypes_def Let_def)
  next
    case 3
    with on show ?thesis by (simp add: LinkTypes_def Let_def)
  qed
qed

lemma VoteFrom_other:
  assumes "GetType w \<notin> {UndoType, LikeType, DislikeType}"
  shows "\<exists>err v'. VoteFrom d v w = Ret (err, v')
           \<and> v_Weight v' = v_Weight v \<and> v_Metadata v' = v_Metadata v"
proof (cases w)
  case (WObj od url att ctx irt to cc bcc actor obj)
  with assms show ?thesis by (simp add: Let_def)
qed simp_all

text \<open>
  C4, amended: decoding an activity of type undo, like or dislike as a vote returns
  whenever decoding its object does not panic and, for an undo, the object is present;
  it returns no error, the weight is 0 for an undo, +1 for a like and -1 for a dislike,
  so that among the three only the undo yields 0, and an undo stores the link of its
  object as the original reference, which is non-empty exactly when that link is. A wire
  item of any other type decodes without panic and leaves the weight and the metadata of
  the receiver as they were.
\<close>

theorem C4_vote_weights:
  "(o_Type od \<in> {UndoType, LikeType, DislikeType} \<and> ItemFrom d emptyItem obj \<noteq> Panic
      \<and> (o_Type od = UndoType \<longrightarrow> obj \<noteq> WNil)
    \<longrightarrow> (\<exists>v'. VoteFrom d v (WObj od url att ctx irt to cc bcc actor obj) = Ret (None, v')
           \<and> v_Weight v' = (if o_Type od = LikeType then 1 else if o_Type od = DislikeType then - 1 else 0)
           \<and> (v_Weight v' = 0 \<longleftrightarrow> o_Type od = UndoType)
           \<and> (o_Type od = UndoType \<longrightarrow>
                map_option vm_OriginalIRI (v_Metadata v') = Some (GetLink obj)
                \<and> (map_option vm_OriginalIRI (v_Metadata v') = Some [] \<longleftrightarrow> GetLink obj = []))))
   \<and> (GetType w \<notin> {UndoType, LikeType, DislikeType}
    \<longrightarrow> (\<exists>err v'. VoteFrom d v w = Ret (err, v')
           \<and> v_Weight v' = v_Weight v \<and> v_Metadata v' = v_Metadata v))"
proof (intro conjI impI)
  assume a: "o_Type od \<in> {UndoType, LikeType, DislikeType} \<and> ItemFrom d emptyItem obj \<noteq> Panic
      \<and> (o_Type od = UndoType \<longrightarrow> obj \<noteq> WNil)"
  then have "\<exists>v'. VoteFrom d v (WObj od url att ctx irt to cc bcc actor obj) = Ret (None, v')
           \<and> v_Weight v' = (if o_Type od = LikeType then 1 else if o_Type od = DislikeType then - 1 else 0)
           \<and> (v_Weight v' = 0 \<longleftrightarrow> o_Type od = UndoType)
           \<and> (o_Type od = UndoType \<longrightarrow>
                map_option vm_OriginalIRI (v_Metadata v') = Some (GetLink obj))"
    by (intro VoteFrom_appreciation) simp_all
  then show "\<exists>v'. VoteFrom d v (WObj od url att ctx irt to cc bcc actor obj) = Ret (None, v')
           \<and> v_Weight v' = (if o_Type od = LikeType then 1 else if o_Type od = DislikeType then - 1 else 0)
           \<and> (v_Weight v' = 0 \<longleftrightarrow> o_Type od = UndoType)
           \<and> (o_Type od = UndoType \<longrightarrow>
                map_option vm_OriginalIRI (v_Metadata v') = Some (GetLink obj)
                \<and> (map_option vm_OriginalIRI (v_Metadata v') = Some [] \<longleftrightarrow> GetLink obj = []))"
    by auto
next
  assume "GetType w \<notin> {UndoType, LikeType, DislikeType}"
  then show "\<exists>err v'. VoteFrom d v w = Ret (err, v')
           \<and> v_Weight v' = v_Weight v \<and> v_Metadata v' = v_Metadata v"
    by (rule VoteFrom_other)
qed

theorem C4_vote_weights_witness:
  "(\<exists>v'. VoteFrom deps0 emptyVote
           (mkActivity UndoType ''https://remote/activities/2'' (WIRI ''https://remote/actors/bob'')
              (WIRI ''https://remote/activities/1''))
         = Ret (None, v')
       \<and> v_Weight v' = 0
       \<and> map_option vm_OriginalIRI (v_Metadata v') = Some ''https://remote/activities/1'')
   \<and> (\<exists>err v'. VoteFrom deps0 (emptyVote\<lparr>v_Weight := 1\<rparr>)
           (mkActivity FollowType ''https://remote/activities/3'' (WIRI ''https://remote/actors/bob'')
              (WIRI ''https://remote/actors/eve''))
         = Ret (err, v')
       \<and> v_Weight v' = 1 \<and> v_Metadata v' = None)"
proof
  let ?od = "emptyObjectData\<lparr>o_ID := ''https://remote/activities/2'', o_Type := UndoType\<rparr>"
  let ?obj = "WIRI ''https://remote/activities/1''"
  have h: "o_Type ?od \<in> {UndoType, LikeType, DislikeType} \<and> ItemFrom deps0 emptyItem ?obj \<noteq> Panic
      \<and> (o_Type ?od = UndoType \<longrightarrow> ?obj \<noteq> WNil)"
    by simp
  from C4_vote_weights
    [where od = ?od and d = deps0 and obj = ?obj and v = emptyVote
       and url = WNil and att = WNil and ctx = WNil and irt = WNil
       and to = "[]" and cc = "[]" and bcc = "[]"
       and actor = "WIRI ''https://remote/actors/bob''", THEN conjunct1, THEN mp, OF h]
  obtain v' where v: "VoteFrom deps0 emptyVote
        (WObj ?od WNil WNil WNil WNil [] [] [] (WIRI ''https://remote/actors/bob'') ?obj) = Ret (None, v')"
    and w: "v_Weight v' = (if o_Type ?od = LikeType then 1 else if o_Type ?od = DislikeType then - 1 else 0)"
    and o: "o_Type ?od = UndoType \<longrightarrow> map_option vm_OriginalIRI (v_Metadata v') = Some (GetLink ?obj)"
    by blast
  from w have w0: "v_Weight v' = 0" by simp
  from o have o0: "map_option vm_OriginalIRI (v_Metadata v') = Some ''https://remote/activities/1''"
    by simp
  from v w0 o0
  show "\<exists>v'. VoteFrom deps0 emptyVote
           (mkActivity UndoType ''https://remote/activities/2'' (WIRI ''https://remote/actors/bob'')
              (WIRI ''https://remote/activities/1''))
         = Ret (None, v')
       \<and> v_Weight v' = 0
       \<and> map_option vm_OriginalIRI (v_Metadata v') = Some ''https://remote/activities/1''"
    unfolding mkActivity_def by blast
next
  let ?w = "mkActivity FollowType ''https://remote/activities/3''
                  (WIRI ''https://remote/actors/bob'') (WIRI ''https://remote/actors/eve'')"
  have h: "GetType ?w \<notin> {UndoType, LikeType, DislikeType}"
    by (simp add: mkActivity_def)
  from C4_vote_weights
    [where w = ?w and d = deps0 and v = "emptyVote\<lparr>v_Weight := 1\<rparr>", THEN conjunct2, THEN mp, OF h]
  obtain err v' where "VoteFrom deps0 (emptyVote\<lparr>v_Weight := 1\<rparr>) ?w = Ret (err, v')"
    and "v_Weight v' = v_Weight (emptyVote\<lparr>v_Weight := 1\<rparr>)"
    and "v_Metadata v' = v_Metadata (emptyVote\<lparr>v_Weight := 1\<rparr>)"
    by blast
  then have "VoteFrom deps0 (emptyVote\<lparr>v_Weight := 1\<rparr>) ?w = Ret (err, v')
       \<and> v_Weight v' = 1 \<and> v_Metadata v' = None"
    by (simp add: emptyVote_def)
  then show "\<exists>err v'. VoteFrom deps0 (emptyVote\<lparr>v_Weight := 1\<rparr>) ?w = Ret (err, v')
       \<and> v_Weight v' = 1 \<and> v_Metadata v' = None"
    by blast
qed

subsection \<open>The type tag of an encoded item\<close>

lemma encodeContent_type:
  "(encodeContent n e item od)\<lparr>o_Type := t\<rparr> = (encodeContent m e item od)\<lparr>o_Type := t\<rparr>"
  by (simp add: encodeContent_def Let_def)

lemma encodeContent_tag:
  "it_MimeType item \<noteq> MimeTypeURL \<Longrightarrow>
   o_Type (encodeContent n e item od) = (if wordCount (it_Data item) > n then ArticleType else NoteType)"
  by (simp add: encodeContent_def Let_def)

lemma encodeEnvelope_type:
  "map_outcome (withType t) (encodeEnvelope e item od url att ctx irt actor obj)
   = encodeEnvelope e item (od\<lparr>o_Type := t\<rparr>) url att ctx irt actor obj"
  by (cases "it_Metadata item") (simp_all add: encodeEnvelope_def Let_def split: outcome.splits)

lemma encodeEnvelope_tag:
  "encodeEnvelope e item od url att ctx irt actor obj = Ret w \<Longrightarrow> GetType w = o_Type od"
  by (cases "it_Metadata item")
     (auto simp: encodeEnvelope_def Let_def split: outcome.splits)

lemma addRecipients_returns:
  "\<forall>r \<in> set rs. acc_Metadata r \<noteq> None \<Longrightarrow> \<exists>c. addRecipients rs col = Ret c"
  by (induction rs arbitrary: col) auto

lemma encodeEnvelope_returns:
  assumes "\<forall>m. it_Metadata item = Some m \<longrightarrow>
             (\<forall>r \<in> set (im_To m) \<union> set (im_CC m). acc_Metadata r \<noteq> None)"
  shows "\<exists>w. encodeEnvelope e item od url att ctx irt actor obj = Ret w"
proof (cases "it_Metadata item")
  case None
  then show ?thesis by (simp add: encodeEnvelope_def Let_def)
next
  case (Some m)
  with assms have to: "\<forall>r \<in> set (im_To m). acc_Metadata r \<noteq> None"
    and cc: "\<forall>r \<in> set (im_CC m). acc_Metadata r \<noteq> None"
    by auto
  show ?thesis
    unfolding encodeEnvelope_def Let_def Some option.case
    using addRecipients_returns [OF to] addRecipients_returns [OF cc]
    by (metis outcome.simps(5))
qed

lemma upd_times_type:
  "r\<lparr>o_Published := p, o_Updated := u, o_Type := t\<rparr>
   = (r\<lparr>o_Type := t\<rparr>)\<lparr>o_Published := p, o_Updated := u\<rparr>"
  by (cases r) simp

lemma threshold_only_type:
  "map_outcome (withType t) (loadAPItemAt n e ob item)
   = map_outcome (withType t) (loadAPItemAt m e ob item)"
proof (cases ob)
  case (WObj od url att ctx irt to0 cc0 bcc0 actor obj)
  define od1 where "od1 = (case BuildIDFromItem e item of Some i \<Rightarrow> od\<lparr>o_ID := i\<rparr> | None \<Rightarrow> od)"
  have eq: "(encodeContent n e item od1)\<lparr>o_Published := p, o_Updated := u, o_Type := t\<rparr>
          = (encodeContent m e item od1)\<lparr>o_Published := p, o_Updated := u, o_Type := t\<rparr>" for p u
    unfolding upd_times_type
    using encodeContent_type [where n = n and m = m and e = e and item = item and od = od1 and t = t]
    by (rule arg_cong)
  show ?thesis
  proof (cases "it_Deleted item")
    case True
    with eq show ?thesis
      unfolding WObj by (simp add: Let_def od1_def [symmetric])
  next
    case False
    with eq show ?thesis
      unfolding WObj by (simp add: Let_def od1_def [symmetric] encodeEnvelope_type)
  qed
qed simp_all

lemma loadAPItemAt_tag:
  assumes "it_MimeType item \<noteq> MimeTypeURL"
    and "loadAPItemAt n e (WObj od url att ctx irt to0 cc0 bcc0 actor obj) item = Ret w"
  shows "GetType w = (if wordCount (it_Data item) > n then ArticleType else NoteType)"
proof (cases "it_Deleted item")
  case True
  with assms(2) show ?thesis
    by (auto simp: Let_def encodeContent_tag [OF assms(1)])
next
  case False
  with assms(2) show ?thesis
    by (auto simp: Let_def encodeContent_tag [OF assms(1)] dest!: encodeEnvelope_tag)
qed

lemma loadAPItemAt_returns:
  assumes "\<forall>m. it_Metadata item = Some m \<longrightarrow>
             (\<forall>r \<in> set (im_To m) \<union> set (im_CC m). acc_Metadata r \<noteq> None)"
  shows "\<exists>w. loadAPItemAt n e (WObj od url att ctx irt to0 cc0 bcc0 actor obj) item = Ret w"
  using encodeEnvelope_returns [OF assms] by (simp add: Let_def)

text \<open>
  C3, as the spec states it, fails. Text of 301 tokens separated by single spaces has
  300 separators and is encoded as a note; text of 301 spaces has no token at all and is
  encoded as an article.
\<close>

theorem C3_word_count_counterexample:
  "it_MimeType (textItem MimeTypeText (concat (replicate 300 ''a '') @ ''a'')) \<noteq> MimeTypeURL
   \<and> spec_tokens (concat (replicate 300 ''a '') @ ''a'') = 301
   \<and> map_outcome GetType
        (loadAPItem enc0 emptyObject (textItem MimeTypeText (concat (replicate 300 ''a '') @ ''a'')))
      = Ret NoteType
   \<and> spec_tokens (replicate 301 CHR '' '') = 0
   \<and> map_outcome GetType
        (loadAPItem enc0 emptyObject (textItem MimeTypeText (replicate 301 CHR '' '')))
      = Ret ArticleType"
  by code_simp

text \<open>
  C3, amended: encoding an item whose MIME kind is not URL, and whose listed recipients
  all carry metadata, returns an object whose type tag is "Article" exactly when the
  content holds more than 300 separators, counting every space, tab and line feed and
  once more every CR LF pair, and "Note" otherwise; with any other threshold the encoded
  object differs in the type tag only.
\<close>

theorem C3_type_tag:
  assumes "it_MimeType item \<noteq> MimeTypeURL"
    and "\<forall>m. it_Metadata item = Some m \<longrightarrow>
           (\<forall>r \<in> set (im_To m) \<union> set (im_CC m). acc_Metadata r \<noteq> None)"
  shows "\<exists>w. loadAPItem e (WObj od url att ctx irt to0 cc0 bcc0 actor obj) item = Ret w
           \<and> (GetType w = ArticleType \<longleftrightarrow> wordCount (it_Data item) > 300)
           \<and> (GetType w = NoteType \<longleftrightarrow> \<not> wordCount (it_Data item) > 300)
           \<and> map_outcome (withType t)
                (loadAPItemAt n e (WObj od url att ctx irt to0 cc0 bcc0 actor obj) item)
              = Ret (withType t w)"
proof -
  let ?ob = "WObj od url att ctx irt to0 cc0 bcc0 actor obj"
  from loadAPItemAt_returns [OF assms(2)] obtain w
    where w: "loadAPItemAt 300 e ?ob item = Ret w"
    by blast
  have tag: "GetType w = (if wordCount (it_Data item) > 300 then ArticleType else NoteType)"
    by (rule loadAPItemAt_tag [OF assms(1) w])
  have "map_outcome (withType t) (loadAPItemAt n e ?ob item)
        = map_outcome (withType t) (loadAPItemAt 300 e ?ob item)"
    by (rule threshold_only_type)
  with w have "map_outcome (withType t) (loadAPItemAt n e ?ob item) = Ret (withType t w)"
    by simp
  with w tag show ?thesis
    by (simp add: loadAPItem_def)
qed

theorem C3_type_tag_witness:
  "\<exists>w. loadAPItem enc0 emptyObject (textItem MimeTypeText ''hello world'') = Ret w
      \<and> GetType w = NoteType
      \<and> map_outcome (withType ObjectType)
           (loadAPItemAt 0 enc0 emptyObject (textItem MimeTypeText ''hello world''))
         = Ret (withType ObjectType w)"
proof -
  have m: "it_MimeType (textItem MimeTypeText ''hello world'') \<noteq> MimeTypeURL"
    by (simp add: textItem_def MimeTypeText_def MimeTypeURL_def)
  have r: "\<forall>m. it_Metadata (textItem MimeTypeText ''hello world'') = Some m \<longrightarrow>
           (\<forall>r \<in> set (im_To m) \<union> set (im_CC m). acc_Metadata r \<noteq> None)"
    by (simp add: textItem_def)
  have wc: "\<not> wordCount (it_Data (textItem MimeTypeText ''hello world'')) > 300"
    by (simp add: textItem_def wordCount_def count_char_def)
  from C3_type_tag [OF m r, of enc0 emptyObjectData WNil WNil WNil WNil "[]" "[]" "[]" WNil WNil ObjectType 0]
  show ?thesis
    using wc unfolding emptyObject_def by blast
qed

subsection \<open>Walking a paged collection\<close>

lemma turnsNeeded_step:
  assumes "0 < ps" and "p + ps < tot"
  shows "turnsNeeded tot ps p = Suc (turnsNeeded tot ps (p + ps))"
proof -
  define r where "r = tot - (p + ps) - 1"
  from assms(2) have a: "tot - (p + ps) = Suc r" and b: "tot - p = Suc r + ps"
    by (simp_all add: r_def)
  have c: "(Suc r + ps + ps - 1) div ps = Suc ((Suc r + ps - 1) div ps)"
    using assms(1) div_add_self2 [of ps "r + ps"] by simp
  have "ps \<le> Suc r + ps - 1" by simp
  then have d: "1 \<le> (Suc r + ps - 1) div ps"
    using assms(1) by (simp add: div_greater_zero_iff Suc_le_eq)
  show ?thesis
    unfolding turnsNeeded_def a b c using d by simp
qed

lemma paged_fetch:
  assumes pg: "paged tot ps served f accum"
  shows "\<exists>col w1. f w fl = (Inr col, w1) \<and> c_Count col = tot
     \<and> length (c_Items col) = min ps (tot - served w) \<and> WNil \<notin> set (c_Items col)
     \<and> served w1 = served w + length (c_Items col)"
  using pg unfolding paged_def by (elim conjE allE [of _ w]) (erule allE [of _ fl])

lemma paged_accum:
  assumes pg: "paged tot ps served f accum"
  shows "served (snd (accum w fl col)) = served w"
  using pg unfolding paged_def by simp

lemma getCollectionPrevNext_no_panic:
  assumes "WNil \<notin> set (c_Items col)"
  shows "getCollectionPrevNext u col \<noteq> Panic"
proof (cases "isPage col")
  case True
  then show ?thesis by (simp add: getCollectionPrevNext_def)
next
  case False
  show ?thesis
  proof (cases "qGet u ''after'' (c_First col) = [] \<and> length (c_Items col) > 0")
    case True
    then have "last (c_Items col) \<in> set (c_Items col)" by simp
    with assms have "last (c_Items col) \<noteq> WNil" by metis
    with True False show ?thesis by (simp add: getCollectionPrevNext_def)
  next
    case False
    with \<open>\<not> isPage col\<close> show ?thesis by (simp add: getCollectionPrevNext_def)
  qed
qed

lemma loopTurn_ok:
  assumes "f w (cur_filters cur) = (Inr col, w1)"
    and "accum w1 (cur_filters cur) col = ((status, None), w2)"
    and "getCollectionPrevNext u col = Ret (prev, nxt)"
  shows "loopTurn u f accum cur w =
    ((if (length nxt = 0 \<or> cur_processed cur + length (c_Items col) = c_Count col) \<or> status
      then Returned None else Continue),
     cur\<lparr>cur_fetches := cur_fetches cur + 1, cur_seen := col # cur_seen cur,
         cur_filters := (if cur_processed cur = 0 then (cur_filters cur)\<lparr>f_Next := nxt, f_Prev := prev\<rparr>
                         else (cur_filters cur)\<lparr>f_Next := nxt\<rparr>),
         cur_processed := cur_processed cur + length (c_Items col)\<rparr>, w2)"
  unfolding loopTurn_def by (simp add: assms)

lemma loopTurn_accum_err:
  assumes "f w (cur_filters cur) = (Inr col, w1)"
    and "accum w1 (cur_filters cur) col = ((status, Some e), w2)"
  shows "loopTurn u f accum cur w =
    (Returned (Some e), cur\<lparr>cur_fetches := cur_fetches cur + 1, cur_seen := col # cur_seen cur\<rparr>, w2)"
  unfolding loopTurn_def by (simp add: assms)

text \<open>One turn against a service that keeps the paging discipline.\<close>

lemma loopTurn_paged:
  assumes pg: "paged tot ps served f accum" and sv: "served w = cur_processed cur"
  shows "\<exists>t cur' w' c. loopTurn u f accum cur w = (t, cur', w')
    \<and> cur_fetches cur' = Suc (cur_fetches cur)
    \<and> t \<noteq> Panicked
    \<and> cur_seen cur' = c # cur_seen cur
    \<and> length (c_Items c) = min ps (tot - cur_processed cur)
    \<and> (t = Continue \<longrightarrow> cur_processed cur' = cur_processed cur + length (c_Items c)
           \<and> cur_processed cur' \<noteq> tot \<and> served w' = cur_processed cur')"
proof -
  from paged_fetch [OF pg, of w "cur_filters cur"]
  obtain col w1 where f: "f w (cur_filters cur) = (Inr col, w1)"
    and cnt: "c_Count col = tot"
    and len0: "length (c_Items col) = min ps (tot - served w)"
    and nn: "WNil \<notin> set (c_Items col)"
    and sv0: "served w1 = served w + length (c_Items col)"
    by (elim exE conjE)
  from len0 sv have len: "length (c_Items col) = min ps (tot - cur_processed cur)" by simp
  from sv0 sv have sv1: "served w1 = cur_processed cur + length (c_Items col)" by simp
  obtain status err w2 where ac: "accum w1 (cur_filters cur) col = ((status, err), w2)"
    by (cases "accum w1 (cur_filters cur) col") auto
  from paged_accum [OF pg, of w1 "cur_filters cur" col] have sv2: "served w2 = served w1"
    by (simp add: ac)
  obtain prev nxt where pn: "getCollectionPrevNext u col = Ret (prev, nxt)"
    using getCollectionPrevNext_no_panic [OF nn, of u]
    by (cases "getCollectionPrevNext u col") auto
  show ?thesis
  proof (cases err)
    case (Some e)
    with ac have a: "accum w1 (cur_filters cur) col = ((status, Some e), w2)" by simp
    let ?cur' = "cur\<lparr>cur_fetches := cur_fetches cur + 1, cur_seen := col # cur_seen cur\<rparr>"
    have lt: "loopTurn u f accum cur w = (Returned (Some e), ?cur', w2)"
      by (rule loopTurn_accum_err
        [where f = f and accum = accum and u = u and cur = cur and w = w and col = col
           and ?w1.0 = w1 and ?w2.0 = w2 and status = status and e = e, OF f a])
    show ?thesis
      by (intro exI [of _ "Returned (Some e)"] exI [of _ ?cur'] exI [of _ w2] exI [of _ col] conjI)
         (simp_all add: lt len)
  next
    case None
    with ac have a: "accum w1 (cur_filters cur) col = ((status, None), w2)" by simp
    let ?t = "if (length nxt = 0 \<or> cur_processed cur + length (c_Items col) = c_Count col) \<or> status
      then Returned None else Continue"
    let ?cur' = "cur\<lparr>cur_fetches := cur_fetches cur + 1, cur_seen := col # cur_seen cur,
         cur_filters := (if cur_processed cur = 0 then (cur_filters cur)\<lparr>f_Next := nxt, f_Prev := prev\<rparr>
                         else (cur_filters cur)\<lparr>f_Next := nxt\<rparr>),
         cur_processed := cur_processed cur + length (c_Items col)\<rparr>"
    have lt: "loopTurn u f accum cur w = (?t, ?cur', w2)"
      by (rule loopTurn_ok
        [where f = f and accum = accum and u = u and cur = cur and w = w and col = col
           and ?w1.0 = w1 and ?w2.0 = w2 and status = status and prev = prev and nxt = nxt,
         OF f a pn])
    show ?thesis
      by (intro exI [of _ ?t] exI [of _ ?cur'] exI [of _ w2] exI [of _ col] conjI)
         (simp_all add: lt len sv1 sv2 cnt)
  qed
qed

text \<open>
  The walk against such a service, from any point of the collection: it ends within the
  turns needed for what remains, without panic, every fetch hands one page to the
  accumulator, and the pages are not empty while something remains.
\<close>

lemma walk_paged:
  assumes pg: "paged tot ps served f accum" and ps: "0 < ps"
  shows "served w = cur_processed cur \<Longrightarrow> cur_processed cur \<le> tot \<Longrightarrow>
    turnsNeeded tot ps (cur_processed cur) \<le> fuel \<Longrightarrow>
    \<exists>t cur' w' new. LoadFromCollection fuel u f accum cur w = Some (t, cur', w')
      \<and> t \<noteq> Continue \<and> t \<noteq> Panicked
      \<and> cur_fetches cur' \<le> cur_fetches cur + turnsNeeded tot ps (cur_processed cur)
      \<and> cur_seen cur' = new @ cur_seen cur \<and> new \<noteq> []
      \<and> cur_fetches cur' = cur_fetches cur + length new
      \<and> (cur_processed cur < tot \<longrightarrow> (\<forall>c \<in> set new. c_Items c \<noteq> []))"
proof (induction fuel arbitrary: cur w)
  case 0
  then show ?case by (simp add: turnsNeeded_def)
next
  case (Suc fuel)
  let ?p = "cur_processed cur"
  from loopTurn_paged [OF pg Suc.prems(1), of u]
  obtain t cur1 w1 c where lt: "loopTurn u f accum cur w = (t, cur1, w1)"
    and fe: "cur_fetches cur1 = Suc (cur_fetches cur)"
    and np: "t \<noteq> Panicked"
    and seen: "cur_seen cur1 = c # cur_seen cur"
    and len: "length (c_Items c) = min ps (tot - ?p)"
    and cont: "t = Continue \<longrightarrow> cur_processed cur1 = ?p + length (c_Items c)
           \<and> cur_processed cur1 \<noteq> tot \<and> served w1 = cur_processed cur1"
    by blast
  have one: "1 \<le> turnsNeeded tot ps ?p" by (simp add: turnsNeeded_def)
  have nonempty: "?p < tot \<longrightarrow> c_Items c \<noteq> []"
    using len ps by auto
  show ?case
  proof (cases "t = Continue")
    case False
    then have r: "LoadFromCollection (Suc fuel) u f accum cur w = Some (t, cur1, w1)"
      using lt by (cases t) simp_all
    have b: "cur_fetches cur1 \<le> cur_fetches cur + turnsNeeded tot ps ?p"
      using fe one by simp
    have s: "cur_seen cur1 = [c] @ cur_seen cur" and n: "cur_fetches cur1 = cur_fetches cur + length [c]"
      using seen fe by simp_all
    have e: "?p < tot \<longrightarrow> (\<forall>x \<in> set [c]. c_Items x \<noteq> [])"
      using nonempty by simp
    show ?thesis
      by (intro exI [of _ t] exI [of _ cur1] exI [of _ w1] exI [of _ "[c]"] conjI)
         (rule r False np b s n e | simp)+
  next
    case True
    with cont have p1: "cur_processed cur1 = ?p + length (c_Items c)"
      and ne: "cur_processed cur1 \<noteq> tot" and sv1: "served w1 = cur_processed cur1"
      by simp_all
    from p1 ne len Suc.prems(2) have full: "length (c_Items c) = ps" and lt_tot: "?p + ps < tot"
      by (auto simp: min_def split: if_splits)
    from p1 full have p1': "cur_processed cur1 = ?p + ps" by simp
    from turnsNeeded_step [OF ps lt_tot] have tn: "turnsNeeded tot ps ?p = Suc (turnsNeeded tot ps (?p + ps))" .
    with Suc.prems(3) have fuel: "turnsNeeded tot ps (cur_processed cur1) \<le> fuel"
      by (simp add: p1')
    from lt_tot have le1: "cur_processed cur1 \<le> tot" and lt1: "cur_processed cur1 < tot"
      by (simp_all add: p1')
    from Suc.IH [OF sv1 le1 fuel]
    obtain t' cur' w' new where r: "LoadFromCollection fuel u f accum cur1 w1 = Some (t', cur', w')"
      and t': "t' \<noteq> Continue" "t' \<noteq> Panicked"
      and b: "cur_fetches cur' \<le> cur_fetches cur1 + turnsNeeded tot ps (cur_processed cur1)"
      and s: "cur_seen cur' = new @ cur_seen cur1" and "new \<noteq> []"
      and n: "cur_fetches cur' = cur_fetches cur1 + length new"
      and e: "cur_processed cur1 < tot \<longrightarrow> (\<forall>c \<in> set new. c_Items c \<noteq> [])"
      by blast
    have r': "LoadFromCollection (Suc fuel) u f accum cur w = Some (t', cur', w')"
      using lt True r by simp
    have b': "cur_fetches cur' \<le> cur_fetches cur + turnsNeeded tot ps ?p"
      using b fe tn by (simp add: p1')
    have s': "cur_seen cur' = (new @ [c]) @ cur_seen cur"
      using s seen by simp
    have n': "cur_fetches cur' = cur_fetches cur + length (new @ [c])"
      using n fe by simp
    have e': "?p < tot \<longrightarrow> (\<forall>x \<in> set (new @ [c]). c_Items x \<noteq> [])"
      using e lt1 nonempty by auto
    show ?thesis
      by (intro exI [of _ t'] exI [of _ cur'] exI [of _ w'] exI [of _ "new @ [c]"] conjI)
         (rule r' t' b' s' n' e' | simp)+
  qed
qed


text \<open>
  C7, as the spec states it, fails. An empty collection costs one fetch, more than
  \<^verbatim>\<open>ceil(0/2) = 0\<close>, and its empty page goes to the accumulator. A collection of two
  items served one item a page costs two fetches, more than \<^verbatim>\<open>ceil(2/2) = 1\<close>. And
  when a collection that declares three items serves two and then an empty last page, the
  accumulator receives the zero-length page after the real one.
\<close>

theorem C7_walk_counterexample:
  "(case LoadFromCollection 5 urls0 scripted accumNever (newCursor pagesOfTwo) [page 0 [] WNil] of
      None \<Rightarrow> False
    | Some (t, cur, w) \<Rightarrow>
        t = Returned None \<and> cur_fetches cur = 1 \<and> ceilDiv 0 2 = 0
        \<and> map c_Items (cur_seen cur) = [[]])
   \<and> (case LoadFromCollection 5 urls0 scripted accumNever (newCursor pagesOfTwo)
            [page 2 [WIRI ''a''] (WIRI ''a''), page 2 [WIRI ''b''] (WIRI ''b'')] of
      None \<Rightarrow> False
    | Some (t, cur, w) \<Rightarrow>
        t = Returned None \<and> cur_fetches cur = 2 \<and> ceilDiv 2 2 = 1)
   \<and> (case LoadFromCollection 5 urls0 scripted accumNever (newCursor pagesOfTwo)
            [page 3 [WIRI ''a'', WIRI ''b''] (WIRI ''b''), page 3 [] WNil] of
      None \<Rightarrow> False
    | Some (t, cur, w) \<Rightarrow>
        t = Returned None \<and> cur_fetches cur = 2 \<and> ceilDiv 3 2 = 2
        \<and> map c_Items (cur_seen cur) = [[], [WIRI ''a'', WIRI ''b'']])"
  by code_simp

text \<open>
  C7, amended: against a service that keeps the paging discipline, where every fetch
  succeeds with a page that declares the total and carries the next \<^verbatim>\<open>pageSize\<close> items,
  or the remaining ones when they are fewer, with a page size above zero, and whatever
  the accumulator answers, \<^verbatim>\<open>LoadFromCollection\<close> terminates without panic after at least
  one and at most \<^verbatim>\<open>max(1, ceil(total/pageSize))\<close> page fetches, hands every fetched page to
  the accumulator, and hands it no zero-length page unless the collection is empty.
\<close>

theorem C7_walk_paged:
  assumes "paged tot ps served f accum" and "0 < ps" and "served w = 0"
    and "max 1 (ceilDiv tot ps) \<le> fuel"
  shows "\<exists>err cur' w'. LoadFromCollection fuel u f accum (newCursor fl) w = Some (Returned err, cur', w')
           \<and> 1 \<le> cur_fetches cur' \<and> cur_fetches cur' \<le> max 1 (ceilDiv tot ps)
           \<and> length (cur_seen cur') = cur_fetches cur'
           \<and> (0 < tot \<longrightarrow> (\<forall>c \<in> set (cur_seen cur'). c_Items c \<noteq> []))"
proof -
  have tn: "turnsNeeded tot ps 0 = max 1 (ceilDiv tot ps)"
    by (simp add: turnsNeeded_def ceilDiv_def)
  have "\<exists>t cur' w' new. LoadFromCollection fuel u f accum (newCursor fl) w = Some (t, cur', w')
      \<and> t \<noteq> Continue \<and> t \<noteq> Panicked
      \<and> cur_fetches cur' \<le> cur_fetches (newCursor fl) + turnsNeeded tot ps (cur_processed (newCursor fl))
      \<and> cur_seen cur' = new @ cur_seen (newCursor fl) \<and> new \<noteq> []
      \<and> cur_fetches cur' = cur_fetches (newCursor fl) + length new
      \<and> (cur_processed (newCursor fl) < tot \<longrightarrow> (\<forall>c \<in> set new. c_Items c \<noteq> []))"
    by (rule walk_paged [OF assms(1,2)]) (use assms(3,4) in \<open>simp_all add: newCursor_def tn\<close>)
  then obtain t cur' w' new
    where r: "LoadFromCollection fuel u f accum (newCursor fl) w = Some (t, cur', w')"
      and t: "t \<noteq> Continue" "t \<noteq> Panicked"
      and b: "cur_fetches cur' \<le> turnsNeeded tot ps 0"
      and s: "cur_seen cur' = new" and ne: "new \<noteq> []"
      and n: "cur_fetches cur' = length new"
      and e: "0 < tot \<longrightarrow> (\<forall>c \<in> set new. c_Items c \<noteq> [])"
    by (auto simp: newCursor_def)
  from t obtain err where err: "t = Returned err" by (cases t) auto
  from ne n have one: "1 \<le> cur_fetches cur'" by (cases new) auto
  show ?thesis
    by (intro exI [of _ err] exI [of _ cur'] exI [of _ w'] conjI)
       (use r err one b tn s n e in simp_all)
qed

lemma pagedService_paged: "paged tot ps (\<lambda>served. served) (pagedService tot ps) accumNever"
  by (simp add: paged_def pagedService_def accumNever_def Let_def)

theorem C7_walk_paged_witness:
  "\<exists>err cur' w'. LoadFromCollection 3 urls0 (pagedService 5 2) accumNever (newCursor pagesOfTwo) 0
             = Some (Returned err, cur', w')
           \<and> 1 \<le> cur_fetches cur' \<and> cur_fetches cur' \<le> 3
           \<and> length (cur_seen cur') = cur_fetches cur'
           \<and> (\<forall>c \<in> set (cur_seen cur'). c_Items c \<noteq> [])"
proof -
  have m: "max 1 (ceilDiv 5 2) = 3" by (simp add: ceilDiv_def)
  have "\<exists>err cur' w'. LoadFromCollection 3 urls0 (pagedService 5 2) accumNever (newCursor pagesOfTwo) 0
             = Some (Returned err, cur', w')
           \<and> 1 \<le> cur_fetches cur' \<and> cur_fetches cur' \<le> max 1 (ceilDiv 5 2)
           \<and> length (cur_seen cur') = cur_fetches cur'
           \<and> (0 < (5::nat) \<longrightarrow> (\<forall>c \<in> set (cur_seen cur'). c_Items c \<noteq> []))"
    by (rule C7_walk_paged [OF pagedService_paged]) (simp_all add: ceilDiv_def)
  then show ?thesis unfolding m by simp
qed

subsection \<open>Loading follow requests\<close>

text \<open>
  C10: whenever \<^verbatim>\<open>LoadFollowRequests\<close> returns, its error is nil and its count is the
  length of the list it returns; when the fetch of the inbox or of the activities fails it
  does return, with the empty list, count zero and no error, so the transport error is
  not propagated. It fails to return only by a panic, and only after a fetch that
  succeeded with a non-empty collection.
\<close>

theorem C10_LoadFollowRequests_error_nil:
  "(case LoadFollowRequests r ed f w of
      Panic \<Rightarrow> \<exists>col w1. fetchFollows r ed f w = (Inr col, w1) \<and> c_Items col \<noteq> []
    | Ret ((requests, count, err), w') \<Rightarrow> err = None \<and> count = length requests)
   \<and> (\<forall>e w1. fetchFollows r ed f w = (Inl e, w1)
        \<longrightarrow> LoadFollowRequests r ed f w = Ret (([], 0, None), w1))"
proof -
  obtain res w1 where fe: "fetchFollows r ed f w = (res, w1)"
    by (cases "fetchFollows r ed f w") auto
  then have fe': "(case ed of None \<Rightarrow> Activities r w f | Some e \<Rightarrow> Inbox r w e f) = (res, w1)"
    by (simp add: fetchFollows_def)
  show ?thesis
  proof (cases res)
    case (Inl e)
    then show ?thesis
      unfolding LoadFollowRequests_def fe' fe by simp
  next
    case (Inr col)
    show ?thesis
    proof (cases "length (c_Items col) > 0")
      case False
      with Inr show ?thesis
        unfolding LoadFollowRequests_def fe' fe by simp
    next
      case True
      show ?thesis
      proof (cases "collectRequests (followFrom r) ed (c_Items col)")
        case Panic
        with Inr True show ?thesis
          unfolding LoadFollowRequests_def fe' fe by simp
      next
        case (Ret requests)
        obtain rs err w2 where la: "loadFollowsAuthors r w1 requests = ((rs, err), w2)"
          by (cases "loadFollowsAuthors r w1 requests") auto
        with Inr True Ret show ?thesis
          unfolding LoadFollowRequests_def fe' fe by simp
      qed
    qed
  qed
qed

theorem C10_LoadFollowRequests_error_nil_witness:
  "LoadFollowRequests followsDown (Some (Account ''aaaaaaaa'' ''bob'' None True [])) emptyFilters ()
     = Ret (([], 0, None), ())
   \<and> LoadFollowRequests followsDown None emptyFilters () = Ret (([], 0, None), ())"
proof
  have a: "fetchFollows followsDown (Some (Account ''aaaaaaaa'' ''bob'' None True [])) emptyFilters ()
             = (Inl (Remote ''connection refused''), ())"
    by (simp add: fetchFollows_def followsDown_def)
  from C10_LoadFollowRequests_error_nil [THEN conjunct2, rule_format, OF a]
  show "LoadFollowRequests followsDown (Some (Account ''aaaaaaaa'' ''bob'' None True [])) emptyFilters ()
     = Ret (([], 0, None), ())" .
next
  have a: "fetchFollows followsDown None emptyFilters () = (Inl (Remote ''connection refused''), ())"
    by (simp add: fetchFollows_def followsDown_def)
  from C10_LoadFollowRequests_error_nil [THEN conjunct2, rule_format, OF a]
  show "LoadFollowRequests followsDown None emptyFilters () = Ret (([], 0, None), ())" .
qed

subsection \<open>The guard of the write operations\<close>






end
